theory Spec2Isabelle
  imports Complex_Main
begin

section \<open>The operation graph emitted by the normalization layer\<close>

text \<open>
  \<^verbatim>\<open>apex/normalization/instance_norm.py\<close> does not compute on numbers: every
  \<^verbatim>\<open>fd.ops.*\<close> call adds a node to the graph of a \<^verbatim>\<open>FusionDefinition\<close>, and the
  external engine runs that graph later. The model therefore has two layers. The first is
  the graph the Python functions build, node for node; the second (further down) is an
  evaluator that gives every node its value on concrete tensors, in exact real arithmetic.
\<close>

datatype NamedAxis = BATCH | CHANNEL

text \<open>
  NVFuser's element types. \<^verbatim>\<open>DataType.Int\<close> (64 bits) is written \<open>Int64\<close>: \<open>Int\<close> is
  HOL's ASCII notation for the intersection of sets.
\<close>

datatype DataType =
  Half | BFloat16 | Float | Double | Int32 | Int64 | Bool | ComplexFloat | ComplexDouble

datatype error = AssertionError | IndexError | RuntimeError

text \<open>
  A \<open>val\<close> is an NVFuser \<^verbatim>\<open>Tensor\<close> or \<^verbatim>\<open>Scalar\<close> handle: the node that produces it.
  \<open>TensorIn\<close> is \<^verbatim>\<open>fd.define_tensor\<close> (a named input of known rank), \<open>ScalarIn\<close> is
  \<^verbatim>\<open>fd.define_scalar\<close>, \<open>ConstInt\<close> and \<open>ConstFloat\<close> are \<^verbatim>\<open>fd.define_constant\<close> on
  a Python int and float, \<open>Size x k\<close> is \<^verbatim>\<open>fd.ops.tensor_sizes(x)[k]\<close>, and \<open>Var\<close> and
  \<open>Mean\<close> are the two results of \<^verbatim>\<open>fd.ops.var_mean(x, axes, correction)\<close>.
\<close>

datatype val =
    TensorIn string nat
  | ScalarIn string
  | ConstInt int
  | ConstFloat real
  | Size val nat
  | Add val val
  | Sub val val
  | Mul val val
  | Div val val
  | Reciprocal val
  | Rsqrt val
  | Cast val DataType
  | Sum val "nat list"
  | Var val "nat list" nat
  | Mean val "nat list" nat
  | BroadcastInDim val "val list" "nat list"

text \<open>The rank the engine assigns to a node; \<^verbatim>\<open>len(fd.ops.tensor_sizes(x))\<close> reads it.\<close>

fun ndim :: "val \<Rightarrow> nat" where
  "ndim (TensorIn nm r) = r"
| "ndim (ScalarIn nm) = 0"
| "ndim (ConstInt c) = 0"
| "ndim (ConstFloat c) = 0"
| "ndim (Size x k) = 0"
| "ndim (Add a b) = max (ndim a) (ndim b)"
| "ndim (Sub a b) = max (ndim a) (ndim b)"
| "ndim (Mul a b) = max (ndim a) (ndim b)"
| "ndim (Div a b) = max (ndim a) (ndim b)"
| "ndim (Reciprocal a) = ndim a"
| "ndim (Rsqrt a) = ndim a"
| "ndim (Cast a dt) = ndim a"
| "ndim (Sum a axes) = ndim a - length axes"
| "ndim (Var a axes c) = ndim a - length axes"
| "ndim (Mean a axes c) = ndim a - length axes"
| "ndim (BroadcastInDim a shp dims) = length shp"

definition tensor_sizes :: "val \<Rightarrow> val list" where
  "tensor_sizes x = map (Size x) [0..<ndim x]"

text \<open>Every broadcast in a graph: the node that is broadcast and the axes it is placed at.\<close>

fun broadcasts :: "val \<Rightarrow> (val \<times> nat list) set" where
  "broadcasts (TensorIn nm r) = {}"
| "broadcasts (ScalarIn nm) = {}"
| "broadcasts (ConstInt c) = {}"
| "broadcasts (ConstFloat c) = {}"
| "broadcasts (Size x k) = broadcasts x"
| "broadcasts (Add a b) = broadcasts a \<union> broadcasts b"
| "broadcasts (Sub a b) = broadcasts a \<union> broadcasts b"
| "broadcasts (Mul a b) = broadcasts a \<union> broadcasts b"
| "broadcasts (Div a b) = broadcasts a \<union> broadcasts b"
| "broadcasts (Reciprocal a) = broadcasts a"
| "broadcasts (Rsqrt a) = broadcasts a"
| "broadcasts (Cast a dt) = broadcasts a"
| "broadcasts (Sum a axes) = broadcasts a"
| "broadcasts (Var a axes c) = broadcasts a"
| "broadcasts (Mean a axes c) = broadcasts a"
| "broadcasts (BroadcastInDim a shp dims) =
     insert (a, dims) (broadcasts a \<union> (\<Union>s\<in>set shp. broadcasts s))"

text \<open>
  The \<^verbatim>\<open>FusionDefinition\<close> as far as these functions change it: the outputs registered
  with \<^verbatim>\<open>fd.add_output(v)\<close> or \<^verbatim>\<open>fd.add_output(v, alias_input=a)\<close>, in call order.
  An output with an alias overwrites the storage of input \<open>a\<close>.
\<close>

record FusionDefinition =
  outputs :: "(val \<times> val option) list"

definition add_output :: "FusionDefinition \<Rightarrow> val \<Rightarrow> val option \<Rightarrow> FusionDefinition" where
  "add_output fd v alias_input = fd\<lparr>outputs := outputs fd @ [(v, alias_input)]\<rparr>"

subsection \<open>Axis roles (lines 110--136 and, identically, 281--307)\<close>

record axes =
  dyn_shape :: "val list"
  num_dims :: nat
  batch_size :: val
  channel_dim :: nat
  num_channels :: val
  stat_dims :: "nat list"
  stat_dims_nobatch :: "nat list"
  num_stats :: val
  x_reduction_axes :: "nat list"
  num_features :: val

text \<open>
  \<^verbatim>\<open>dyn_shape[batch_dim]\<close> and \<^verbatim>\<open>dyn_shape[channel_dim]\<close> raise \<^verbatim>\<open>IndexError\<close> out of
  range. The first read is at index 0, so it fails exactly on rank 0; past it the rank is
  positive, \<^verbatim>\<open>num_dims - 1\<close> is not negative, and the second read fails exactly when
  the channel index is not below the rank.
\<close>

definition resolve_axes :: "val \<Rightarrow> bool \<Rightarrow> NamedAxis list \<Rightarrow> error + axes" where
  "resolve_axes x channels_last stat_axes =
    (let dyn_shape = tensor_sizes x;
         num_dims = length dyn_shape;
         batch_dim = 0
     in if num_dims = 0 then Inl IndexError else
     let batch_size = dyn_shape ! batch_dim;
         channel_dim = (if channels_last then num_dims - 1 else 1)
     in if \<not> channel_dim < num_dims then Inl IndexError else
     let num_channels = dyn_shape ! channel_dim;
         stat_dims = [];
         stat_dims_nobatch = [];
         num_stats = ConstInt 1;
         (stat_dims, num_stats) =
           (if BATCH \<in> set stat_axes
            then (stat_dims @ [batch_dim], Mul num_stats batch_size)
            else (stat_dims, num_stats));
         (stat_dims, stat_dims_nobatch, num_stats) =
           (if CHANNEL \<in> set stat_axes
            then (stat_dims @ [channel_dim], stat_dims_nobatch @ [channel_dim],
                  Mul num_stats num_channels)
            else (stat_dims, stat_dims_nobatch, num_stats));
         x_reduction_axes = filter (\<lambda>ax. ax \<notin> set stat_dims) [0..<num_dims];
         num_features = foldl (\<lambda>nf ax. Mul nf (dyn_shape ! ax)) (ConstInt 1) x_reduction_axes
     in Inr \<lparr>dyn_shape = dyn_shape, num_dims = num_dims, batch_size = batch_size,
             channel_dim = channel_dim, num_channels = num_channels, stat_dims = stat_dims,
             stat_dims_nobatch = stat_dims_nobatch, num_stats = num_stats,
             x_reduction_axes = x_reduction_axes, num_features = num_features\<rparr>)"

subsection \<open>\<^verbatim>\<open>norm_fusion_forward\<close> (lines 42--220)\<close>

definition reduced_precision :: "DataType option \<Rightarrow> bool" where
  "reduced_precision x_datatype \<longleftrightarrow> x_datatype \<in> {Some Half, Some BFloat16}"

text \<open>Lines 141--187: the two aliasing outputs that overwrite the running statistics.\<close>

definition update_running ::
  "FusionDefinition \<Rightarrow> axes \<Rightarrow> val \<Rightarrow> val \<Rightarrow> val \<Rightarrow> val \<Rightarrow> val \<Rightarrow> DataType option \<Rightarrow> bool \<Rightarrow>
   NamedAxis list \<Rightarrow> FusionDefinition" where
  "update_running fd ax x_var x_mean running_mean running_var momentum x_datatype unbiased
      stat_axes =
    (let one = ConstFloat 1;
         rev_momentum = Sub one momentum;
         current_mean_hat = Mul x_mean momentum;
         mean_hat = Mul running_mean rev_momentum;
         new_mean_hat = Add mean_hat current_mean_hat;
         new_mean_sum = (if BATCH \<in> set stat_axes then Sum new_mean_hat [0] else new_mean_hat);
         rev_batch_size = Reciprocal (batch_size ax);
         new_mean_channels_only = Mul new_mean_sum rev_batch_size;
         new_mean_channels_only =
           (if reduced_precision x_datatype
            then Cast new_mean_channels_only (the x_datatype) else new_mean_channels_only);
         fd = add_output fd new_mean_channels_only (Some running_mean);
         x_var_unbiased = x_var;
         x_var_unbiased =
           (if \<not> unbiased
            then (let b2ub = Div (num_features ax) (Sub (num_features ax) (ConstInt 1))
                  in Mul x_var b2ub)
            else x_var_unbiased);
         current_var_hat = Mul x_var_unbiased momentum;
         var_hat = Mul running_var rev_momentum;
         new_var_hat = Add var_hat current_var_hat;
         new_var_sum = (if BATCH \<in> set stat_axes then Sum new_var_hat [0] else new_var_hat);
         new_var_channels_only = Mul new_var_sum rev_batch_size;
         new_var_channels_only =
           (if reduced_precision x_datatype
            then Cast new_var_channels_only (the x_datatype) else new_var_channels_only)
     in add_output fd new_var_channels_only (Some running_var))"

text \<open>Lines 213--218: the optional scale and shift.\<close>

definition affine :: "axes \<Rightarrow> val option \<Rightarrow> val option \<Rightarrow> val \<Rightarrow> val" where
  "affine ax weight bias x_normed =
    (let x_normed = (case weight of None \<Rightarrow> x_normed
           | Some w \<Rightarrow> Mul x_normed (BroadcastInDim w (dyn_shape ax) (stat_dims_nobatch ax)));
         x_normed = (case bias of None \<Rightarrow> x_normed
           | Some b \<Rightarrow> Add x_normed (BroadcastInDim b (dyn_shape ax) (stat_dims_nobatch ax)))
     in x_normed)"

text \<open>
  The unused parameter \<^verbatim>\<open>inputs\<close> is left out. After the assertion of lines 106--108
  the two running statistics are present together, so the branch of line 141 has both.
\<close>

definition norm_fusion_forward ::
  "FusionDefinition \<Rightarrow> val \<Rightarrow> val option \<Rightarrow> val option \<Rightarrow> val option \<Rightarrow> val option \<Rightarrow> val \<Rightarrow>
   bool \<Rightarrow> val \<Rightarrow> bool \<Rightarrow> DataType option \<Rightarrow> bool \<Rightarrow> NamedAxis list \<Rightarrow>
   error + (FusionDefinition \<times> val \<times> val \<times> val)" where
  "norm_fusion_forward fd x weight bias running_mean running_var eps use_input_stats momentum
      channels_last x_datatype unbiased stat_axes =
    (if (running_var = None) \<noteq> (running_mean = None) then Inl AssertionError else
     case resolve_axes x channels_last stat_axes of
       Inl e \<Rightarrow> Inl e
     | Inr ax \<Rightarrow>
        (if use_input_stats \<or> running_mean = None then
           (let correction = (if unbiased then 1 else 0);
                x_var = Var x (x_reduction_axes ax) correction;
                x_mean = Mean x (x_reduction_axes ax) correction;
                fd = (case (running_mean, running_var) of
                        (Some rm, Some rv) \<Rightarrow>
                          update_running fd ax x_var x_mean rm rv momentum x_datatype unbiased
                            stat_axes
                      | _ \<Rightarrow> fd);
                mean = x_mean;
                mean_bcast = BroadcastInDim mean (dyn_shape ax) (stat_dims ax);
                x_sub_mean = Sub x mean_bcast;
                var_eps = Add x_var eps;
                invstd = Rsqrt var_eps;
                invstd_bcast = BroadcastInDim invstd (dyn_shape ax) (stat_dims ax);
                x_normed = Mul x_sub_mean invstd_bcast
            in Inr (fd, affine ax weight bias x_normed, mean, invstd))
         else
           (case (running_mean, running_var) of
              (Some rm, Some rv) \<Rightarrow>
                (let r_mean_bcast = BroadcastInDim rm (dyn_shape ax) (stat_dims_nobatch ax);
                     x_sub_mean = Sub x r_mean_bcast;
                     var_eps = Add rv eps;
                     invstd = Rsqrt var_eps;
                     invstd_bcast = BroadcastInDim invstd (dyn_shape ax) (stat_dims_nobatch ax);
                     mean = rm;
                     x_normed = Mul x_sub_mean invstd_bcast
                 in Inr (fd, affine ax weight bias x_normed, mean, invstd))
            | _ \<Rightarrow> Inl AssertionError)))"

subsection \<open>\<^verbatim>\<open>norm_fusion_backward\<close> (lines 223--370)\<close>

text \<open>
  The function only calls \<^verbatim>\<open>fd.ops.*\<close>, never \<^verbatim>\<open>fd.add_output\<close>; the
  \<^verbatim>\<open>FusionDefinition\<close> is threaded through so that this is a statement about the model
  and not a convention. The intermediate nodes are definitions of their own, since the
  claims name them.
\<close>

definition bw_mean :: "axes \<Rightarrow> val \<Rightarrow> val" where
  "bw_mean ax mean = BroadcastInDim mean (dyn_shape ax) [0, channel_dim ax]"

definition bw_norm :: "axes \<Rightarrow> val" where
  "bw_norm ax = Reciprocal (num_features ax)"

definition bw_grad_output_sum :: "axes \<Rightarrow> val \<Rightarrow> val" where
  "bw_grad_output_sum ax grad_output = Sum grad_output (x_reduction_axes ax)"

definition bw_dot_p :: "axes \<Rightarrow> val \<Rightarrow> val \<Rightarrow> val \<Rightarrow> val" where
  "bw_dot_p ax x grad_output mean =
     Sum (Mul grad_output (Sub x (bw_mean ax mean))) (x_reduction_axes ax)"

definition bw_grad_mean :: "axes \<Rightarrow> val \<Rightarrow> val" where
  "bw_grad_mean ax grad_output =
     BroadcastInDim (Mul (bw_grad_output_sum ax grad_output) (bw_norm ax)) (dyn_shape ax)
       [0, channel_dim ax]"

definition bw_proj_scale :: "axes \<Rightarrow> val \<Rightarrow> val \<Rightarrow> val \<Rightarrow> val \<Rightarrow> val" where
  "bw_proj_scale ax x grad_output mean invstd =
     BroadcastInDim (Mul (Mul (bw_dot_p ax x grad_output mean) (bw_norm ax)) (Mul invstd invstd))
       (dyn_shape ax) [0, channel_dim ax]"

definition bw_invstd_bcast :: "axes \<Rightarrow> val \<Rightarrow> val" where
  "bw_invstd_bcast ax invstd = BroadcastInDim invstd (dyn_shape ax) [0, channel_dim ax]"

definition bw_grad_scale :: "axes \<Rightarrow> val \<Rightarrow> val option \<Rightarrow> val" where
  "bw_grad_scale ax invstd weight =
     (case weight of
        None \<Rightarrow> bw_invstd_bcast ax invstd
      | Some w \<Rightarrow> Mul (bw_invstd_bcast ax invstd) (BroadcastInDim w (dyn_shape ax) [0]))"

definition bw_grad_input ::
  "axes \<Rightarrow> val \<Rightarrow> val \<Rightarrow> val \<Rightarrow> val \<Rightarrow> val option \<Rightarrow> bool \<Rightarrow> val" where
  "bw_grad_input ax x grad_output mean invstd weight use_input_stats =
     (if use_input_stats then
        (let proj = Mul (Sub x (bw_mean ax mean)) (bw_proj_scale ax x grad_output mean invstd)
         in Mul (Sub (Sub grad_output proj) (bw_grad_mean ax grad_output))
              (bw_grad_scale ax invstd weight))
      else Mul grad_output (bw_grad_scale ax invstd weight))"

definition norm_fusion_backward ::
  "FusionDefinition \<Rightarrow> val \<Rightarrow> val \<Rightarrow> val \<Rightarrow> val \<Rightarrow> val option \<Rightarrow> val option \<Rightarrow> val option \<Rightarrow>
   val option \<Rightarrow> bool \<Rightarrow> bool \<Rightarrow> DataType option \<Rightarrow> NamedAxis list \<Rightarrow>
   error + (FusionDefinition \<times> val \<times> val option \<times> val option)" where
  "norm_fusion_backward fd x grad_output mean invstd weight bias running_mean running_var
      use_input_stats channels_last x_datatype stat_axes =
    (if (running_var = None) \<noteq> (running_mean = None) then Inl AssertionError else
     case resolve_axes x channels_last stat_axes of
       Inl e \<Rightarrow> Inl e
     | Inr ax \<Rightarrow>
        (let grad_input = bw_grad_input ax x grad_output mean invstd weight use_input_stats;
             grad_weight_reduced =
               (if weight \<noteq> None
                then (let grad_weight = Mul (bw_dot_p ax x grad_output mean) invstd
                      in Some (Sum grad_weight [0]))
                else None);
             grad_bias_reduced =
               (if bias \<noteq> None
                then (let grad_bias = bw_grad_output_sum ax grad_output
                      in Some (Sum grad_bias [0]))
                else None)
         in Inr (fd, grad_input, grad_weight_reduced, grad_bias_reduced)))"

subsection \<open>The graph of \<^verbatim>\<open>NormNVFuserFunction.backward\<close> (lines 510--574)\<close>

datatype torch_dtype =
    torch_float16 | torch_bfloat16 | torch_float32 | torch_float64 | torch_int32
  | torch_int64 | torch_bool | torch_complex64 | torch_complex128 | torch_other

text \<open>Lines 13--28; \<open>torch_other\<close> stands for every PyTorch type the table lacks.\<close>

fun torch2datatype :: "torch_dtype \<Rightarrow> DataType option" where
  "torch2datatype torch_float16 = Some Half"
| "torch2datatype torch_bfloat16 = Some BFloat16"
| "torch2datatype torch_float32 = Some Float"
| "torch2datatype torch_float64 = Some Double"
| "torch2datatype torch_int32 = Some Int32"
| "torch2datatype torch_int64 = Some Int64"
| "torch2datatype torch_bool = Some Bool"
| "torch2datatype torch_complex64 = Some ComplexFloat"
| "torch2datatype torch_complex128 = Some ComplexDouble"
| "torch2datatype torch_other = None"

text \<open>
  A PyTorch tensor as far as the wrapper reads it: element type, sizes and the element at
  each index. Strides only feed the contiguity flags of \<^verbatim>\<open>fd.define_tensor\<close>, which no
  node's value depends on; what is kept of them is that \<^verbatim>\<open>stride[-1]\<close> (line 35) raises
  on a tensor of rank 0.
\<close>

record torch_tensor =
  dtype :: torch_dtype
  sizes :: "nat list"
  elems :: "nat list \<Rightarrow> real"

definition partially_contig_tensor :: "string \<Rightarrow> torch_tensor \<Rightarrow> error + val" where
  "partially_contig_tensor nm t =
     (if sizes t = [] then Inl IndexError else Inr (TensorIn nm (length (sizes t))))"

fun define_optional :: "string \<Rightarrow> torch_tensor option \<Rightarrow> error + val option" where
  "define_optional nm None = Inr None"
| "define_optional nm (Some t) =
     (case partially_contig_tensor nm t of Inl e \<Rightarrow> Inl e | Inr v \<Rightarrow> Inr (Some v))"

definition py_index :: "'a list \<Rightarrow> nat \<Rightarrow> error + 'a" where
  "py_index xs i = (if i < length xs then Inr (xs ! i) else Inl IndexError)"

record ctx =
  ctx_stat_axes :: "NamedAxis list"
  ctx_use_input_stats :: bool
  ctx_channels_last :: bool
  saved_x :: torch_tensor
  saved_weight :: "torch_tensor option"
  saved_bias :: "torch_tensor option"
  saved_running_mean :: "torch_tensor option"
  saved_running_var :: "torch_tensor option"
  saved_mean :: torch_tensor
  saved_invstd :: torch_tensor

text \<open>Python's exception propagation: the first error ends the call.\<close>

definition bind :: "error + 'a \<Rightarrow> ('a \<Rightarrow> error + 'b) \<Rightarrow> error + 'b" where
  "bind m f = (case m of Inl e \<Rightarrow> Inl e | Inr v \<Rightarrow> f v)"

text \<open>Lines 561--574: the casts and the registered outputs of the backward pass.\<close>

definition backward_outputs ::
  "FusionDefinition \<Rightarrow> DataType option \<Rightarrow> torch_tensor option \<Rightarrow> torch_tensor option \<Rightarrow>
   val \<Rightarrow> val option \<Rightarrow> val option \<Rightarrow> FusionDefinition" where
  "backward_outputs fd x_datatype weight bias grad_input grad_weight grad_bias =
    (let grad_input = (if reduced_precision x_datatype
                       then Cast grad_input (the x_datatype) else grad_input);
         fd = add_output fd grad_input None;
         fd = (case (weight, grad_weight) of
                 (Some w, Some gw) \<Rightarrow>
                   add_output fd
                     (if reduced_precision x_datatype then Cast gw (the x_datatype) else gw) None
               | _ \<Rightarrow> fd);
         fd = (case (bias, grad_bias) of
                 (Some b, Some gb) \<Rightarrow>
                   (if reduced_precision x_datatype then fd else add_output fd gb None)
               | _ \<Rightarrow> fd)
     in fd)"

text \<open>Lines 510--574: the graph of the backward pass.\<close>

definition backward_graph :: "ctx \<Rightarrow> torch_tensor \<Rightarrow> error + FusionDefinition" where
  "backward_graph c grad_output =
    bind (partially_contig_tensor ''x'' (saved_x c)) (\<lambda>tv_x.
    bind (define_optional ''weight'' (saved_weight c)) (\<lambda>tv_weight.
    bind (define_optional ''bias'' (saved_bias c)) (\<lambda>tv_bias.
    bind (define_optional ''running_mean'' (saved_running_mean c)) (\<lambda>tv_running_mean.
    bind (define_optional ''running_var'' (saved_running_var c)) (\<lambda>tv_running_var.
    bind (partially_contig_tensor ''mean'' (saved_mean c)) (\<lambda>tv_mean.
    bind (partially_contig_tensor ''invstd'' (saved_invstd c)) (\<lambda>tv_invstd.
    bind (partially_contig_tensor ''grad_output'' grad_output) (\<lambda>tv_grad_output.
    bind (norm_fusion_backward \<lparr>outputs = []\<rparr> tv_x tv_grad_output tv_mean tv_invstd tv_weight
            tv_bias tv_running_mean tv_running_var (ctx_use_input_stats c)
            (ctx_channels_last c) (torch2datatype (dtype (saved_x c))) (ctx_stat_axes c))
      (\<lambda>(fd, grad_input, grad_weight, grad_bias).
         Inr (backward_outputs fd (torch2datatype (dtype (saved_x c))) (saved_weight c)
                (saved_bias c) grad_input grad_weight grad_bias))))))))))"

section \<open>The value of a graph\<close>

text \<open>
  Modelled from the spec: the operations of the external graph engine (NVFuser), which the
  repository calls and does not contain. Section 6 of the specification lists them:
  elementwise add, subtract, multiply, divide and reciprocal, rsqrt and cast, sum and the
  joint variance and mean over a list of axes with a correction, broadcast insertion, and
  aliasing outputs. They are given their mathematical meaning on tensors over the reals:
  rounding, element types and memory layout are left out, so \<open>Cast\<close> is the identity on
  values and division is exact. A tensor is its list of sizes and its element at each index
  (a list of positions, one per axis); only indices within the sizes matter. A scalar is a
  tensor of rank 0. An operation the engine rejects has no value (\<open>None\<close>).
\<close>

record tensor =
  shape :: "nat list"
  elem :: "nat list \<Rightarrow> real"

definition scalar :: "real \<Rightarrow> tensor" where
  "scalar c = \<lparr>shape = [], elem = (\<lambda>i. c)\<rparr>"

definition valid_index :: "nat list \<Rightarrow> nat list \<Rightarrow> bool" where
  "valid_index shp i \<longleftrightarrow> list_all2 (<) i shp"

definition pointwise :: "(real \<Rightarrow> real) \<Rightarrow> tensor \<Rightarrow> tensor" where
  "pointwise f a = \<lparr>shape = shape a, elem = (\<lambda>i. f (elem a i))\<rparr>"

text \<open>
  Elementwise binary operations align the operand of lower rank with the trailing axes of
  the other (a scalar with none of them); the aligned sizes must agree.
\<close>

definition binary :: "(real \<Rightarrow> real \<Rightarrow> real) \<Rightarrow> tensor \<Rightarrow> tensor \<Rightarrow> tensor option" where
  "binary f a b =
    (let ra = length (shape a); rb = length (shape b) in
     if ra \<le> rb then
       (if shape a = drop (rb - ra) (shape b)
        then Some \<lparr>shape = shape b, elem = (\<lambda>i. f (elem a (drop (rb - ra) i)) (elem b i))\<rparr>
        else None)
     else
       (if shape b = drop (ra - rb) (shape a)
        then Some \<lparr>shape = shape a, elem = (\<lambda>i. f (elem a i) (elem b (drop (ra - rb) i)))\<rparr>
        else None))"

text \<open>
  Reductions drop the reduced axes. \<open>slice shp axes j\<close> lists the indices of the input that
  agree with the output index \<open>j\<close> on the axes that are kept.
\<close>

definition kept_axes :: "nat \<Rightarrow> nat list \<Rightarrow> nat list" where
  "kept_axes r axes = filter (\<lambda>d. d \<notin> set axes) [0..<r]"

definition slice :: "nat list \<Rightarrow> nat list \<Rightarrow> nat list \<Rightarrow> nat list list" where
  "slice shp axes j =
     product_lists (map (\<lambda>d. if d \<in> set axes then [0..<shp ! d]
                              else [j ! length (kept_axes d axes)]) [0..<length shp])"

definition reducible :: "tensor \<Rightarrow> nat list \<Rightarrow> bool" where
  "reducible t axes \<longleftrightarrow> distinct axes \<and> (\<forall>a\<in>set axes. a < length (shape t))"

definition reduced_shape :: "tensor \<Rightarrow> nat list \<Rightarrow> nat list" where
  "reduced_shape t axes = map ((!) (shape t)) (kept_axes (length (shape t)) axes)"

definition sum_axes :: "tensor \<Rightarrow> nat list \<Rightarrow> tensor option" where
  "sum_axes t axes =
    (if reducible t axes
     then Some \<lparr>shape = reduced_shape t axes,
                elem = (\<lambda>j. sum_list (map (elem t) (slice (shape t) axes j)))\<rparr>
     else None)"

definition slice_mean :: "tensor \<Rightarrow> nat list \<Rightarrow> nat list \<Rightarrow> real" where
  "slice_mean t axes j =
     sum_list (map (elem t) (slice (shape t) axes j)) / real (length (slice (shape t) axes j))"

definition mean_axes :: "tensor \<Rightarrow> nat list \<Rightarrow> tensor option" where
  "mean_axes t axes =
    (if reducible t axes
     then Some \<lparr>shape = reduced_shape t axes, elem = slice_mean t axes\<rparr>
     else None)"

text \<open>
  The variance divides the sum of squared deviations by the slice length less the
  correction. The slice length is the product of the reduced sizes; where it does not
  exceed the correction the divisor is zero and the variance is undefined (\<open>0 / 0\<close>, which
  the engine computes as NaN in every element): the node then has no value.
\<close>

definition slice_var :: "tensor \<Rightarrow> nat list \<Rightarrow> nat \<Rightarrow> nat list \<Rightarrow> real" where
  "slice_var t axes correction j =
     sum_list (map (\<lambda>i. (elem t i - slice_mean t axes j)\<^sup>2) (slice (shape t) axes j))
       / real (length (slice (shape t) axes j) - correction)"

definition var_axes :: "tensor \<Rightarrow> nat list \<Rightarrow> nat \<Rightarrow> tensor option" where
  "var_axes t axes correction =
    (if reducible t axes \<and> correction < prod_list (map ((!) (shape t)) axes)
     then Some \<lparr>shape = reduced_shape t axes, elem = slice_var t axes correction\<rparr>
     else None)"

text \<open>
  \<open>broadcast_in_dim t out dims\<close> places axis \<open>k\<close> of \<open>t\<close> at axis \<open>dims ! k\<close> of the
  result and repeats \<open>t\<close> along every other axis. The engine wants one entry of \<open>dims\<close> for
  each axis of \<open>t\<close>, in increasing order and within the result's rank, and the sizes of
  matched axes equal.
\<close>

definition broadcast_in_dim :: "tensor \<Rightarrow> nat list \<Rightarrow> nat list \<Rightarrow> tensor option" where
  "broadcast_in_dim t out dims =
    (if sorted_wrt (<) dims
        \<and> list_all2 (\<lambda>d n. d < length out \<and> out ! d = n) dims (shape t)
     then Some \<lparr>shape = out, elem = (\<lambda>i. elem t (map ((!) i) dims))\<rparr>
     else None)"

definition as_size :: "tensor \<Rightarrow> nat option" where
  "as_size t =
    (if shape t = [] \<and> elem t [] = real (nat \<lfloor>elem t []\<rfloor>) then Some (nat \<lfloor>elem t []\<rfloor>)
     else None)"

definition lift2 ::
  "(tensor \<Rightarrow> tensor \<Rightarrow> tensor option) \<Rightarrow> tensor option \<Rightarrow> tensor option \<Rightarrow> tensor option" where
  "lift2 f a b = (case a of None \<Rightarrow> None | Some ta \<Rightarrow> (case b of None \<Rightarrow> None | Some tb \<Rightarrow> f ta tb))"

definition lift1 :: "(tensor \<Rightarrow> tensor option) \<Rightarrow> tensor option \<Rightarrow> tensor option" where
  "lift1 f a = (case a of None \<Rightarrow> None | Some ta \<Rightarrow> f ta)"

text \<open>An input must be bound to a tensor of the rank it was defined with.\<close>

fun eval :: "(string \<Rightarrow> tensor option) \<Rightarrow> val \<Rightarrow> tensor option" where
  "eval env (TensorIn nm r) =
     lift1 (\<lambda>t. if length (shape t) = r then Some t else None) (env nm)"
| "eval env (ScalarIn nm) = lift1 (\<lambda>t. if shape t = [] then Some t else None) (env nm)"
| "eval env (ConstInt c) = Some (scalar (real_of_int c))"
| "eval env (ConstFloat c) = Some (scalar c)"
| "eval env (Size x k) =
     lift1 (\<lambda>t. if k < length (shape t) then Some (scalar (real (shape t ! k))) else None)
       (eval env x)"
| "eval env (Add a b) = lift2 (binary (+)) (eval env a) (eval env b)"
| "eval env (Sub a b) = lift2 (binary (-)) (eval env a) (eval env b)"
| "eval env (Mul a b) = lift2 (binary (*)) (eval env a) (eval env b)"
| "eval env (Div a b) = lift2 (binary (/)) (eval env a) (eval env b)"
| "eval env (Reciprocal a) = lift1 (\<lambda>t. Some (pointwise inverse t)) (eval env a)"
| "eval env (Rsqrt a) = lift1 (\<lambda>t. Some (pointwise (\<lambda>v. 1 / sqrt v) t)) (eval env a)"
| "eval env (Cast a dt) = eval env a"
| "eval env (Sum a axes) = lift1 (\<lambda>t. sum_axes t axes) (eval env a)"
| "eval env (Var a axes c) = lift1 (\<lambda>t. var_axes t axes c) (eval env a)"
| "eval env (Mean a axes c) = lift1 (\<lambda>t. mean_axes t axes) (eval env a)"
| "eval env (BroadcastInDim a shp dims) =
     (case (eval env a, those (map (\<lambda>s. Option.bind (eval env s) as_size) shp)) of
        (Some t, Some out) \<Rightarrow> broadcast_in_dim t out dims
      | _ \<Rightarrow> None)"

text \<open>
  Running a graph: every registered output is computed from the inputs as they are before
  the run; an output that aliases an input then replaces that input's tensor, and the
  others are returned in order. An alias has to name an input tensor.
\<close>

fun write_back ::
  "(string \<Rightarrow> tensor option) \<Rightarrow> (string \<Rightarrow> tensor option) \<Rightarrow> (val \<times> val option) list \<Rightarrow>
   ((string \<Rightarrow> tensor option) \<times> tensor list) option" where
  "write_back env0 env [] = Some (env, [])"
| "write_back env0 env ((v, alias_input) # outs) =
     (case eval env0 v of
        None \<Rightarrow> None
      | Some t \<Rightarrow>
         (case alias_input of
            None \<Rightarrow> map_option (\<lambda>(env', res). (env', t # res)) (write_back env0 env outs)
          | Some (TensorIn nm r) \<Rightarrow> write_back env0 (env(nm \<mapsto> t)) outs
          | Some _ \<Rightarrow> None))"

definition run ::
  "(string \<Rightarrow> tensor option) \<Rightarrow> FusionDefinition \<Rightarrow>
   ((string \<Rightarrow> tensor option) \<times> tensor list) option" where
  "run env fd = write_back env env (outputs fd)"

subsection \<open>Running \<^verbatim>\<open>NormNVFuserFunction.backward\<close> (lines 485--612)\<close>

text \<open>
  \<^verbatim>\<open>Tensor.permute(order)\<close>: axis \<open>k\<close> of the result is axis \<open>order ! k\<close> of the
  argument. PyTorch raises a runtime error unless \<open>order\<close> is a permutation of the axes.
\<close>

definition permute :: "nat list \<Rightarrow> tensor \<Rightarrow> error + tensor" where
  "permute order t =
    (if sort order = [0..<length (shape t)]
     then Inr \<lparr>shape = map ((!) (shape t)) order,
               elem = (\<lambda>i. elem t (map (\<lambda>d. i ! length (takeWhile (\<lambda>e. e \<noteq> d) order))
                                    [0..<length order]))\<rparr>
     else Inl RuntimeError)"

definition as_tensor :: "torch_tensor \<Rightarrow> tensor" where
  "as_tensor t = \<lparr>shape = sizes t, elem = elems t\<rparr>"

text \<open>Lines 502--504: under \<^verbatim>\<open>channels_last\<close> the output gradient is permuted on entry.\<close>

definition entry_grad_output :: "ctx \<Rightarrow> torch_tensor \<Rightarrow> error + tensor" where
  "entry_grad_output c grad_output =
    (if ctx_channels_last c
     then permute ([0] @ [2..<length (sizes grad_output)] @ [1]) (as_tensor grad_output)
     else Inr (as_tensor grad_output))"

text \<open>The list \<^verbatim>\<open>inputs\<close> of lines 512--540, by the names the graph gives its inputs.\<close>

definition bind_input ::
  "string \<Rightarrow> torch_tensor option \<Rightarrow> (string \<Rightarrow> tensor option) \<Rightarrow> (string \<Rightarrow> tensor option)" where
  "bind_input nm t env = (case t of None \<Rightarrow> env | Some tt \<Rightarrow> env(nm \<mapsto> as_tensor tt))"

definition backward_inputs :: "ctx \<Rightarrow> tensor \<Rightarrow> (string \<Rightarrow> tensor option)" where
  "backward_inputs c grad_output =
    (bind_input ''running_var'' (saved_running_var c)
      (bind_input ''running_mean'' (saved_running_mean c)
        (bind_input ''bias'' (saved_bias c)
          (bind_input ''weight'' (saved_weight c)
            (Map.empty(''x'' \<mapsto> as_tensor (saved_x c)))))))
      (''mean'' \<mapsto> as_tensor (saved_mean c), ''invstd'' \<mapsto> as_tensor (saved_invstd c),
       ''grad_output'' \<mapsto> grad_output)"

text \<open>
  \<^verbatim>\<open>fd.execute(inputs)\<close> (line 576) runs the graph. It raises a runtime error when the
  engine rejects the graph on these inputs, and otherwise returns one tensor per
  registered output that aliases no input, in registration order.
\<close>

definition execute :: "FusionDefinition \<Rightarrow> (string \<Rightarrow> tensor option) \<Rightarrow> error + tensor list" where
  "execute fd inputs =
    (case run inputs fd of None \<Rightarrow> Inl RuntimeError | Some (env', res) \<Rightarrow> Inr res)"

text \<open>Lines 579--588: \<^verbatim>\<open>res[c]\<close> is read, and \<^verbatim>\<open>c\<close> advanced, only for a tensor that is present.\<close>

definition take_result :: "tensor list \<Rightarrow> nat \<Rightarrow> bool \<Rightarrow> error + (tensor option \<times> nat)" where
  "take_result res k present =
     (if present then bind (py_index res k) (\<lambda>g. Inr (Some g, k + 1)) else Inr (None, k))"

record grads =
  res_grad_input :: tensor
  res_grad_weight :: "tensor option"
  res_grad_bias :: "tensor option"

text \<open>
  Lines 590--600: under \<^verbatim>\<open>channels_last\<close> the input gradient is permuted back and its
  rank must be 4 or 5; the \<^verbatim>\<open>is_contiguous\<close> assertions are about memory layout and are
  taken to hold.
\<close>

definition restore_layout :: "ctx \<Rightarrow> tensor \<Rightarrow> error + tensor" where
  "restore_layout c grad_input =
    (if ctx_channels_last c then
       (let r = length (shape grad_input) in
        bind (permute ([0, r - 1] @ [1..<r - 1]) grad_input) (\<lambda>grad_input.
          if length (shape grad_input) = 4 \<or> length (shape grad_input) = 5
          then Inr grad_input else Inl AssertionError))
     else Inr grad_input)"

definition backward :: "ctx \<Rightarrow> torch_tensor \<Rightarrow> error + grads" where
  "backward c grad_output =
    bind (entry_grad_output c grad_output) (\<lambda>go.
    bind (backward_graph c grad_output) (\<lambda>fd.
    bind (execute fd (backward_inputs c go)) (\<lambda>res.
    bind (py_index res 0) (\<lambda>grad_input.
    bind (take_result res 1 (saved_weight c \<noteq> None)) (\<lambda>(grad_weight, k).
    bind (take_result res k (saved_bias c \<noteq> None)) (\<lambda>(grad_bias, k).
    bind (restore_layout c grad_input) (\<lambda>grad_input.
      Inr \<lparr>res_grad_input = grad_input, res_grad_weight = grad_weight,
           res_grad_bias = grad_bias\<rparr>)))))))"

text \<open>
  \<open>has_value env e shp f\<close>: under the inputs \<open>env\<close> the node \<open>e\<close> has a value, of shape
  \<open>shp\<close>, whose element at every index within \<open>shp\<close> is given by \<open>f\<close>.
\<close>

definition has_value ::
  "(string \<Rightarrow> tensor option) \<Rightarrow> val \<Rightarrow> nat list \<Rightarrow> (nat list \<Rightarrow> real) \<Rightarrow> bool" where
  "has_value env e shp f \<longleftrightarrow>
     (\<exists>t. eval env e = Some t \<and> shape t = shp \<and> (\<forall>i. valid_index shp i \<longrightarrow> elem t i = f i))"

text \<open>
  The element of an optional parameter (weight or bias) that a broadcast at the axes
  \<open>dims\<close> puts at index \<open>i\<close> of the result, and \<open>d\<close> when the parameter is absent.
\<close>

definition param_at ::
  "(string \<Rightarrow> tensor option) \<Rightarrow> val option \<Rightarrow> nat list \<Rightarrow> real \<Rightarrow> nat list \<Rightarrow> real" where
  "param_at env p dims d i =
     (case p of None \<Rightarrow> d
      | Some v \<Rightarrow> (case eval env v of None \<Rightarrow> d | Some t \<Rightarrow> elem t (map ((!) i) dims)))"

section \<open>Unfolding the model on concrete inputs\<close>

lemmas graph_defs =
  norm_fusion_forward_def norm_fusion_backward_def resolve_axes_def tensor_sizes_def
  update_running_def add_output_def reduced_precision_def affine_def
  bw_grad_input_def bw_grad_scale_def bw_invstd_bcast_def bw_mean_def bw_proj_scale_def
  bw_grad_mean_def bw_dot_p_def bw_grad_output_sum_def bw_norm_def

lemmas value_defs =
  lift1_def lift2_def binary_def scalar_def pointwise_def sum_axes_def mean_axes_def
  var_axes_def slice_mean_def slice_var_def slice_def reducible_def reduced_shape_def
  kept_axes_def broadcast_in_dim_def as_size_def run_def

lemmas wrapper_defs =
  backward_def backward_graph_def backward_outputs_def backward_inputs_def bind_input_def
  entry_grad_output_def restore_layout_def execute_def take_result_def py_index_def bind_def
  partially_contig_tensor_def as_tensor_def permute_def

section \<open>The running-statistics precondition\<close>

text \<open>
  C9. Both graph-construction functions stop with the assertion error of lines 106--108
  (277--279) if and only if exactly one of the running mean and the running variance is
  supplied; with both or neither the assertion passes (and no later step raises it).
\<close>

theorem C9_assertion_iff_exactly_one:
  "(norm_fusion_forward fd x weight bias running_mean running_var eps use_input_stats momentum
      channels_last x_datatype unbiased stat_axes = Inl AssertionError
    \<longleftrightarrow> (running_mean = None) \<noteq> (running_var = None))
   \<and> (norm_fusion_backward fd x grad_output mean invstd weight bias running_mean running_var
      use_input_stats channels_last x_datatype stat_axes = Inl AssertionError
    \<longleftrightarrow> (running_mean = None) \<noteq> (running_var = None))"
  by (cases running_mean; cases running_var)
     (auto simp: norm_fusion_forward_def norm_fusion_backward_def resolve_axes_def Let_def
           split: sum.splits if_splits prod.splits)

theorem C9_assertion_iff_exactly_one_witness:
  "norm_fusion_forward \<lparr>outputs = []\<rparr> (TensorIn ''x'' 3) None None
      (Some (TensorIn ''running_mean'' 1)) None (ScalarIn ''eps'') True (ScalarIn ''momentum'')
      False (Some Float) False [BATCH, CHANNEL] = Inl AssertionError
   \<and> norm_fusion_backward \<lparr>outputs = []\<rparr> (TensorIn ''x'' 3) (TensorIn ''grad_output'' 3)
      (TensorIn ''mean'' 2) (TensorIn ''invstd'' 2) None None
      (Some (TensorIn ''running_mean'' 1)) (Some (TensorIn ''running_var'' 1))
      True False (Some Float) [BATCH, CHANNEL] \<noteq> Inl AssertionError"
  using C9_assertion_iff_exactly_one [of "\<lparr>outputs = []\<rparr>" "TensorIn ''x'' 3" None None
      "Some (TensorIn ''running_mean'' 1)" None "ScalarIn ''eps''" True "ScalarIn ''momentum''"
      False "Some Float" False "[BATCH, CHANNEL]"]
    C9_assertion_iff_exactly_one [of "\<lparr>outputs = []\<rparr>" "TensorIn ''x'' 3" None None
      "Some (TensorIn ''running_mean'' 1)" "Some (TensorIn ''running_var'' 1)" "ScalarIn ''eps''"
      True "ScalarIn ''momentum''" False "Some Float" False "[BATCH, CHANNEL]"
      "TensorIn ''grad_output'' 3" "TensorIn ''mean'' 2" "TensorIn ''invstd'' 2"]
  by simp

section \<open>The backward wrapper and reduced precision\<close>

lemma bind_Inr_iff: "bind m f = Inr r \<longleftrightarrow> (\<exists>v. m = Inr v \<and> f v = Inr r)"
  by (cases m) (simp_all add: bind_def)

lemma define_optional_Inr:
  "define_optional nm t = Inr v \<Longrightarrow> (v = None \<longleftrightarrow> t = None)"
  by (cases t) (auto simp: bind_def split: sum.splits)

lemma norm_fusion_backward_Inr:
  assumes "norm_fusion_backward fd x go mean invstd weight bias rm rv uis cl dt sa
           = Inr (fd', gi, gw, gb)"
  shows "fd' = fd \<and> (gw = None \<longleftrightarrow> weight = None) \<and> (gb = None \<longleftrightarrow> bias = None)"
  using assms
  by (auto simp: norm_fusion_backward_def Let_def split: if_splits sum.splits)

lemma write_back_results:
  assumes "\<forall>(v, a)\<in>set outs. a = None" and "write_back env0 env outs = Some (env', res)"
  shows "length res = length outs"
  using assms
  by (induction outs arbitrary: res) (auto split: option.splits)

lemma backward_outputs_reduced_precision:
  assumes "reduced_precision dt" "bias \<noteq> None" "gw = None \<longleftrightarrow> weight = None"
  shows "length (outputs (backward_outputs \<lparr>outputs = []\<rparr> dt weight bias gi gw gb))
         = (if weight = None then 1 else 2)"
    and "\<forall>(v, a)\<in>set (outputs (backward_outputs \<lparr>outputs = []\<rparr> dt weight bias gi gw gb)).
           a = None"
  using assms
  by (cases weight; cases gw; cases bias; cases gb;
      simp add: backward_outputs_def add_output_def Let_def)+

text \<open>
  C4 (the code departs from it). The claim: whenever a bias was supplied, \<^verbatim>\<open>backward\<close>
  returns a bias gradient in third position, for every element type, Half and BFloat16
  included. The code: for an input of type Half or BFloat16 the bias gradient is cast but
  not registered as an output (\<^verbatim>\<open>fd.add_output(grad_bias)\<close> sits in the \<^verbatim>\<open>else\<close>
  of line 573). So whenever the graph is built and the engine runs it on the saved tensors,
  the results hold no bias gradient, the read \<^verbatim>\<open>res[c]\<close> of line 585 is out of range and
  the call ends with \<^verbatim>\<open>IndexError\<close>. The weight gradient, five lines above, is registered
  for every type, and the same call on tensors of type \<^verbatim>\<open>float32\<close> returns the bias gradient.
\<close>

theorem C4_reduced_precision_bias_gradient_missing:
  assumes half: "dtype (saved_x c) \<in> {torch_float16, torch_bfloat16}"
      and bias: "saved_bias c \<noteq> None"
      and entry: "entry_grad_output c grad_output = Inr go"
      and graph: "backward_graph c grad_output = Inr fd"
      and runs: "run (backward_inputs c go) fd = Some (env', res)"
  shows "backward c grad_output = Inl IndexError"
proof -
  have rp: "reduced_precision (torch2datatype (dtype (saved_x c)))"
    using half by (auto simp: reduced_precision_def)
  from graph obtain tv_w fd0 gi gw gb where
    w: "define_optional ''weight'' (saved_weight c) = Inr tv_w" and
    fd: "fd = backward_outputs fd0 (torch2datatype (dtype (saved_x c))) (saved_weight c)
                (saved_bias c) gi gw gb" and
    fd0: "fd0 = \<lparr>outputs = []\<rparr>" and gw: "gw = None \<longleftrightarrow> tv_w = None"
    unfolding backward_graph_def bind_Inr_iff
    by (auto dest!: norm_fusion_backward_Inr)
  have gw': "gw = None \<longleftrightarrow> saved_weight c = None"
    using gw define_optional_Inr [OF w] by simp
  note bo = backward_outputs_reduced_precision [OF rp bias gw', of gi gb]
  have len: "length res = (if saved_weight c = None then 1 else 2)"
    using write_back_results [OF bo(2), of "backward_inputs c go" "backward_inputs c go" env' res]
      runs bo(1) unfolding fd fd0 run_def by simp
  have ex: "execute fd (backward_inputs c go) = Inr res"
    using runs by (simp add: execute_def)
  show ?thesis
    using len bias
    by (cases res)
       (auto simp: backward_def entry graph ex bind_def take_result_def py_index_def
             split: sum.splits)
qed

theorem C4_reduced_precision_bias_gradient_missing_witness:
  "backward \<lparr>ctx_stat_axes = [BATCH, CHANNEL], ctx_use_input_stats = True,
       ctx_channels_last = False,
       saved_x = \<lparr>dtype = torch_float16, sizes = [2, 2, 3], elems = (\<lambda>i. real (i ! 2) - 1)\<rparr>,
       saved_weight = Some \<lparr>dtype = torch_float16, sizes = [2], elems = (\<lambda>i. real (i ! 0) + 1)\<rparr>,
       saved_bias = Some \<lparr>dtype = torch_float16, sizes = [2], elems = (\<lambda>i. 0)\<rparr>,
       saved_running_mean = None, saved_running_var = None,
       saved_mean = \<lparr>dtype = torch_float16, sizes = [2, 2], elems = (\<lambda>i. 0)\<rparr>,
       saved_invstd = \<lparr>dtype = torch_float16, sizes = [2, 2], elems = (\<lambda>i. 1)\<rparr>\<rparr>
       \<lparr>dtype = torch_float16, sizes = [2, 2, 3], elems = (\<lambda>i. if i ! 2 = 1 then 1 else 0)\<rparr>
     = Inl IndexError
   \<and> (\<exists>g tb. backward \<lparr>ctx_stat_axes = [BATCH, CHANNEL], ctx_use_input_stats = True,
       ctx_channels_last = False,
       saved_x = \<lparr>dtype = torch_float32, sizes = [2, 2, 3], elems = (\<lambda>i. real (i ! 2) - 1)\<rparr>,
       saved_weight = Some \<lparr>dtype = torch_float32, sizes = [2], elems = (\<lambda>i. real (i ! 0) + 1)\<rparr>,
       saved_bias = Some \<lparr>dtype = torch_float32, sizes = [2], elems = (\<lambda>i. 0)\<rparr>,
       saved_running_mean = None, saved_running_var = None,
       saved_mean = \<lparr>dtype = torch_float32, sizes = [2, 2], elems = (\<lambda>i. 0)\<rparr>,
       saved_invstd = \<lparr>dtype = torch_float32, sizes = [2, 2], elems = (\<lambda>i. 1)\<rparr>\<rparr>
       \<lparr>dtype = torch_float32, sizes = [2, 2, 3], elems = (\<lambda>i. if i ! 2 = 1 then 1 else 0)\<rparr>
     = Inr g \<and> res_grad_bias g = Some tb \<and> shape tb = [2] \<and> elem tb [0] = 2 \<and> elem tb [1] = 2)"
proof -
  let ?c = "\<lparr>ctx_stat_axes = [BATCH, CHANNEL], ctx_use_input_stats = True,
       ctx_channels_last = False,
       saved_x = \<lparr>dtype = torch_float16, sizes = [2, 2, 3], elems = (\<lambda>i. real (i ! 2) - 1)\<rparr>,
       saved_weight = Some \<lparr>dtype = torch_float16, sizes = [2], elems = (\<lambda>i. real (i ! 0) + 1)\<rparr>,
       saved_bias = Some \<lparr>dtype = torch_float16, sizes = [2], elems = (\<lambda>i. 0)\<rparr>,
       saved_running_mean = None, saved_running_var = None,
       saved_mean = \<lparr>dtype = torch_float16, sizes = [2, 2], elems = (\<lambda>i. 0)\<rparr>,
       saved_invstd = \<lparr>dtype = torch_float16, sizes = [2, 2], elems = (\<lambda>i. 1)\<rparr>\<rparr>"
  let ?go = "\<lparr>dtype = torch_float16, sizes = [2, 2, 3],
              elems = (\<lambda>i. if i ! 2 = 1 then 1 else (0::real))\<rparr>"
  have h1: "dtype (saved_x ?c) \<in> {torch_float16, torch_bfloat16}" by simp
  have h2: "saved_bias ?c \<noteq> None" by simp
  have h3: "entry_grad_output ?c ?go = Inr (as_tensor ?go)"
    by (simp add: entry_grad_output_def)
  have "\<exists>fd env' res. backward_graph ?c ?go = Inr fd
          \<and> run (backward_inputs ?c (as_tensor ?go)) fd = Some (env', res)"
    by (simp add: wrapper_defs graph_defs value_defs upt_rec Let_def)
  then obtain fd env' res where h4: "backward_graph ?c ?go = Inr fd"
    and h5: "run (backward_inputs ?c (as_tensor ?go)) fd = Some (env', res)" by blast
  have a: "backward ?c ?go = Inl IndexError"
    by (rule C4_reduced_precision_bias_gradient_missing [OF h1 h2 h3 h4 h5])
  have b: "\<exists>g tb. backward \<lparr>ctx_stat_axes = [BATCH, CHANNEL], ctx_use_input_stats = True,
       ctx_channels_last = False,
       saved_x = \<lparr>dtype = torch_float32, sizes = [2, 2, 3], elems = (\<lambda>i. real (i ! 2) - 1)\<rparr>,
       saved_weight = Some \<lparr>dtype = torch_float32, sizes = [2], elems = (\<lambda>i. real (i ! 0) + 1)\<rparr>,
       saved_bias = Some \<lparr>dtype = torch_float32, sizes = [2], elems = (\<lambda>i. 0)\<rparr>,
       saved_running_mean = None, saved_running_var = None,
       saved_mean = \<lparr>dtype = torch_float32, sizes = [2, 2], elems = (\<lambda>i. 0)\<rparr>,
       saved_invstd = \<lparr>dtype = torch_float32, sizes = [2, 2], elems = (\<lambda>i. 1)\<rparr>\<rparr>
       \<lparr>dtype = torch_float32, sizes = [2, 2, 3], elems = (\<lambda>i. if i ! 2 = 1 then 1 else 0)\<rparr>
     = Inr g \<and> res_grad_bias g = Some tb \<and> shape tb = [2] \<and> elem tb [0] = 2 \<and> elem tb [1] = 2"
    by (simp add: wrapper_defs graph_defs value_defs upt_rec Let_def)
  from a b show ?thesis by blast
qed

section \<open>Structure of the emitted graphs\<close>

lemma resolve_axes_Inr:
  assumes "resolve_axes x cl sa = Inr ax"
  shows "dyn_shape ax = tensor_sizes x"
    and "num_dims ax = ndim x"
    and "channel_dim ax = (if cl then ndim x - 1 else 1)"
    and "channel_dim ax < ndim x"
    and "batch_size ax = Size x 0"
    and "stat_dims ax = (if BATCH \<in> set sa then [0] else []) @
                         (if CHANNEL \<in> set sa then [channel_dim ax] else [])"
    and "stat_dims_nobatch ax = (if CHANNEL \<in> set sa then [channel_dim ax] else [])"
    and "x_reduction_axes ax = filter (\<lambda>d. d \<notin> set (stat_dims ax)) [0..<ndim x]"
    and "num_features ax
         = foldl (\<lambda>nf d. Mul nf (Size x d)) (ConstInt 1) (x_reduction_axes ax)"
  using assms
  by (auto simp: resolve_axes_def tensor_sizes_def Let_def split: if_splits
           intro!: foldl_cong)

lemma broadcasts_tensor_sizes: "(\<Union>s\<in>set (tensor_sizes x). broadcasts s) \<subseteq> broadcasts x"
  by (auto simp: tensor_sizes_def)

lemma broadcasts_foldl_sizes:
  "broadcasts (foldl (\<lambda>nf d. Mul nf (Size x d)) a ds) \<subseteq> broadcasts a \<union> broadcasts x"
proof (induction ds arbitrary: a)
  case Nil
  show ?case by simp
next
  case (Cons d ds)
  have "broadcasts (foldl (\<lambda>nf d. Mul nf (Size x d)) (Mul a (Size x d)) ds)
        \<subseteq> broadcasts (Mul a (Size x d)) \<union> broadcasts x"
    by (rule Cons.IH)
  then show ?case by auto
qed

lemma stat_dims_eq_iff:
  assumes "resolve_axes x cl sa = Inr ax"
  shows "stat_dims ax = [0, channel_dim ax] \<longleftrightarrow> BATCH \<in> set sa \<and> CHANNEL \<in> set sa"
  using resolve_axes_Inr(6) [OF assms] by auto

text \<open>
  C5. Whenever \<^verbatim>\<open>norm_fusion_backward\<close> returns, for every list of axis roles: the saved
  mean, the inverse standard deviation, \<open>gradMean\<close> and \<open>projScale\<close> are broadcast at the
  axes \<open>[0, channel_dim]\<close>, where \<open>channel_dim\<close> depends on the layout flag and the rank
  alone; in the returned input gradient every broadcast that the function adds, other than
  the one of the weight, is at these axes; and these axes are the forward pass's
  \<open>stat_dims\<close> exactly when both BATCH and CHANNEL are among the roles.
\<close>

theorem C5_backward_broadcast_axes:
  assumes "norm_fusion_backward fd x grad_output mean invstd weight bias running_mean
             running_var use_input_stats channels_last x_datatype stat_axes
           = Inr (fd', gi, gw, gb)"
  shows "\<exists>ax. resolve_axes x channels_last stat_axes = Inr ax
     \<and> channel_dim ax = (if channels_last then ndim x - 1 else 1)
     \<and> bw_mean ax mean = BroadcastInDim mean (tensor_sizes x) [0, channel_dim ax]
     \<and> bw_invstd_bcast ax invstd = BroadcastInDim invstd (tensor_sizes x) [0, channel_dim ax]
     \<and> bw_grad_mean ax grad_output
         = BroadcastInDim (Mul (bw_grad_output_sum ax grad_output) (bw_norm ax))
             (tensor_sizes x) [0, channel_dim ax]
     \<and> bw_proj_scale ax x grad_output mean invstd
         = BroadcastInDim (Mul (Mul (bw_dot_p ax x grad_output mean) (bw_norm ax))
             (Mul invstd invstd)) (tensor_sizes x) [0, channel_dim ax]
     \<and> (use_input_stats \<longrightarrow>
          gi = Mul (Sub (Sub grad_output
                      (Mul (Sub x (bw_mean ax mean)) (bw_proj_scale ax x grad_output mean invstd)))
                      (bw_grad_mean ax grad_output))
                 (case weight of None \<Rightarrow> bw_invstd_bcast ax invstd
                  | Some w \<Rightarrow> Mul (bw_invstd_bcast ax invstd)
                               (BroadcastInDim w (tensor_sizes x) [0])))
     \<and> (\<forall>e ds. (e, ds) \<in> broadcasts gi \<longrightarrow>
           ds = [0, channel_dim ax] \<or> (weight = Some e \<and> ds = [0])
           \<or> (e, ds) \<in> broadcasts x \<union> broadcasts grad_output \<union> broadcasts mean
                \<union> broadcasts invstd \<union> (case weight of None \<Rightarrow> {} | Some w \<Rightarrow> broadcasts w))
     \<and> (stat_dims ax = [0, channel_dim ax]
          \<longleftrightarrow> BATCH \<in> set stat_axes \<and> CHANNEL \<in> set stat_axes)"
proof -
  from assms obtain ax where ax: "resolve_axes x channels_last stat_axes = Inr ax"
    and gi: "gi = bw_grad_input ax x grad_output mean invstd weight use_input_stats"
    by (auto simp: norm_fusion_backward_def Let_def split: if_splits sum.splits)
  note r = resolve_axes_Inr [OF ax]
  have nf: "broadcasts (num_features ax) \<subseteq> broadcasts x"
    unfolding r(9) using broadcasts_foldl_sizes [of x "ConstInt 1"] by auto
  have sz: "(\<Union>s\<in>set (tensor_sizes x). broadcasts s) \<subseteq> broadcasts x"
    by (rule broadcasts_tensor_sizes)
  have bc: "\<forall>e ds. (e, ds) \<in> broadcasts gi \<longrightarrow>
           ds = [0, channel_dim ax] \<or> (weight = Some e \<and> ds = [0])
           \<or> (e, ds) \<in> broadcasts x \<union> broadcasts grad_output \<union> broadcasts mean
                \<union> broadcasts invstd \<union> (case weight of None \<Rightarrow> {} | Some w \<Rightarrow> broadcasts w)"
    using nf sz unfolding gi
    by (cases weight)
       (auto simp: bw_grad_input_def bw_grad_scale_def bw_invstd_bcast_def bw_mean_def
          bw_proj_scale_def bw_grad_mean_def bw_dot_p_def bw_grad_output_sum_def bw_norm_def
          r(1) Let_def)
  show ?thesis
    apply (rule exI [of _ ax])
    apply (intro conjI)
            apply (rule ax)
           apply (rule r(3))
          apply (simp add: bw_mean_def r(1))
         apply (simp add: bw_invstd_bcast_def r(1))
        apply (simp add: bw_grad_mean_def r(1))
       apply (simp add: bw_proj_scale_def r(1))
      apply (cases weight; simp add: gi bw_grad_input_def bw_grad_scale_def r(1) Let_def)
     apply (rule bc)
    apply (rule stat_dims_eq_iff [OF ax])
    done
qed


theorem C5_backward_broadcast_axes_witness:
  "\<exists>ax. resolve_axes (TensorIn ''x'' 3) False [CHANNEL] = Inr ax
     \<and> bw_mean ax (TensorIn ''mean'' 1)
         = BroadcastInDim (TensorIn ''mean'' 1) (tensor_sizes (TensorIn ''x'' 3)) [0, 1]
     \<and> stat_dims ax = [1]"
proof -
  have "\<exists>r. norm_fusion_backward \<lparr>outputs = []\<rparr> (TensorIn ''x'' 3) (TensorIn ''grad_output'' 3)
      (TensorIn ''mean'' 1) (TensorIn ''invstd'' 1) None None None None True False (Some Float)
      [CHANNEL] = Inr r"
    by (simp add: norm_fusion_backward_def resolve_axes_def tensor_sizes_def Let_def)
  then obtain fd' gi gw gb where
    "norm_fusion_backward \<lparr>outputs = []\<rparr> (TensorIn ''x'' 3) (TensorIn ''grad_output'' 3)
      (TensorIn ''mean'' 1) (TensorIn ''invstd'' 1) None None None None True False (Some Float)
      [CHANNEL] = Inr (fd', gi, gw, gb)"
    by (metis prod_cases4)
  from C5_backward_broadcast_axes [OF this] obtain ax where
    ax: "resolve_axes (TensorIn ''x'' 3) False [CHANNEL] = Inr ax" and
    cd: "channel_dim ax = (if False then ndim (TensorIn ''x'' 3) - 1 else 1)" and
    m: "bw_mean ax (TensorIn ''mean'' 1)
         = BroadcastInDim (TensorIn ''mean'' 1) (tensor_sizes (TensorIn ''x'' 3)) [0, channel_dim ax]"
    by blast
  have "stat_dims ax = [1]"
    using ax by (auto simp: resolve_axes_def tensor_sizes_def Let_def)
  with ax cd m show ?thesis by auto
qed

lemma write_back_no_alias:
  assumes "\<forall>(v, a)\<in>set outs. a = None" and "write_back env0 env outs = Some (env', res)"
  shows "env' = env"
  using assms
  by (induction outs arbitrary: res) (auto split: option.splits)

text \<open>
  C8. \<^verbatim>\<open>norm_fusion_forward\<close> registers the two aliasing outputs, onto the running mean
  and the running variance, exactly when running statistics are supplied and the statistics
  are computed afresh; otherwise (inference mode included) it leaves the
  \<^verbatim>\<open>FusionDefinition\<close> as it was. \<^verbatim>\<open>norm_fusion_backward\<close> never registers an output,
  and no output of the backward wrapper's graph aliases an input, so running it changes
  no input tensor.
\<close>

theorem C8_running_statistics_frame:
  "(norm_fusion_forward fd x weight bias running_mean running_var eps use_input_stats momentum
      channels_last x_datatype unbiased stat_axes = Inr (fd', out, mean, invstd) \<longrightarrow>
     (if running_mean \<noteq> None \<and> (use_input_stats \<or> running_mean = None)
      then \<exists>new_mean new_var.
             outputs fd' = outputs fd @ [(new_mean, running_mean), (new_var, running_var)]
      else fd' = fd))
   \<and> (norm_fusion_backward fd x grad_output smean sinvstd weight bias running_mean
      running_var use_input_stats channels_last x_datatype stat_axes = Inr (fd'', gi, gw, gb)
      \<longrightarrow> fd'' = fd)
   \<and> (backward_graph c grad_out = Inr bfd \<longrightarrow>
        (\<forall>(v, alias_input)\<in>set (outputs bfd). alias_input = None)
        \<and> (\<forall>env env' res. run env bfd = Some (env', res) \<longrightarrow> env' = env))"
proof (intro conjI impI)
  assume a: "norm_fusion_forward fd x weight bias running_mean running_var eps use_input_stats
      momentum channels_last x_datatype unbiased stat_axes = Inr (fd', out, mean, invstd)"
  then show "if running_mean \<noteq> None \<and> (use_input_stats \<or> running_mean = None)
      then \<exists>new_mean new_var.
             outputs fd' = outputs fd @ [(new_mean, running_mean), (new_var, running_var)]
      else fd' = fd"
    by (cases running_mean; cases running_var)
       (auto simp: norm_fusion_forward_def update_running_def add_output_def Let_def
             split: if_splits sum.splits)
next
  assume "norm_fusion_backward fd x grad_output smean sinvstd weight bias running_mean
      running_var use_input_stats channels_last x_datatype stat_axes = Inr (fd'', gi, gw, gb)"
  then show "fd'' = fd" by (simp add: norm_fusion_backward_Inr)
next
  assume g: "backward_graph c grad_out = Inr bfd"
  then obtain fd0 dt w b gi gw gb where
    bfd: "bfd = backward_outputs \<lparr>outputs = []\<rparr> dt w b gi gw gb"
    unfolding backward_graph_def bind_Inr_iff
    by (auto dest!: norm_fusion_backward_Inr)
  show na: "\<forall>(v, alias_input)\<in>set (outputs bfd). alias_input = None"
    unfolding bfd
    by (auto simp: backward_outputs_def add_output_def Let_def split: option.splits if_splits)
  show "\<forall>env env' res. run env bfd = Some (env', res) \<longrightarrow> env' = env"
    using write_back_no_alias [OF na] by (auto simp: run_def)
qed


theorem C8_running_statistics_frame_witness:
  "(\<exists>fd' out mean invstd new_mean new_var.
      norm_fusion_forward \<lparr>outputs = []\<rparr> (TensorIn ''x'' 3) None None
        (Some (TensorIn ''running_mean'' 1)) (Some (TensorIn ''running_var'' 1))
        (ScalarIn ''eps'') True (ScalarIn ''momentum'') False (Some Float) False [CHANNEL]
      = Inr (fd', out, mean, invstd)
      \<and> outputs fd' = [(new_mean, Some (TensorIn ''running_mean'' 1)),
                         (new_var, Some (TensorIn ''running_var'' 1))])
   \<and> (\<exists>out mean invstd.
      norm_fusion_forward \<lparr>outputs = []\<rparr> (TensorIn ''x'' 3) None None
        (Some (TensorIn ''running_mean'' 1)) (Some (TensorIn ''running_var'' 1))
        (ScalarIn ''eps'') False (ScalarIn ''momentum'') False (Some Float) False [CHANNEL]
      = Inr (\<lparr>outputs = []\<rparr>, out, mean, invstd))"
proof -
  have "\<exists>r. norm_fusion_forward \<lparr>outputs = []\<rparr> (TensorIn ''x'' 3) None None
        (Some (TensorIn ''running_mean'' 1)) (Some (TensorIn ''running_var'' 1))
        (ScalarIn ''eps'') True (ScalarIn ''momentum'') False (Some Float) False [CHANNEL]
      = Inr r"
    by (simp add: norm_fusion_forward_def resolve_axes_def tensor_sizes_def Let_def)
  then obtain fd' out mean invstd where t:
    "norm_fusion_forward \<lparr>outputs = []\<rparr> (TensorIn ''x'' 3) None None
        (Some (TensorIn ''running_mean'' 1)) (Some (TensorIn ''running_var'' 1))
        (ScalarIn ''eps'') True (ScalarIn ''momentum'') False (Some Float) False [CHANNEL]
      = Inr (fd', out, mean, invstd)"
    by (metis prod_cases4)
  have "\<exists>r. norm_fusion_forward \<lparr>outputs = []\<rparr> (TensorIn ''x'' 3) None None
        (Some (TensorIn ''running_mean'' 1)) (Some (TensorIn ''running_var'' 1))
        (ScalarIn ''eps'') False (ScalarIn ''momentum'') False (Some Float) False [CHANNEL]
      = Inr r"
    by (simp add: norm_fusion_forward_def resolve_axes_def tensor_sizes_def Let_def)
  then obtain fd2 out2 mean2 invstd2 where i:
    "norm_fusion_forward \<lparr>outputs = []\<rparr> (TensorIn ''x'' 3) None None
        (Some (TensorIn ''running_mean'' 1)) (Some (TensorIn ''running_var'' 1))
        (ScalarIn ''eps'') False (ScalarIn ''momentum'') False (Some Float) False [CHANNEL]
      = Inr (fd2, out2, mean2, invstd2)"
    by (metis prod_cases4)
  from C8_running_statistics_frame [THEN conjunct1, rule_format, OF t] t
  have 1: "\<exists>fd' out mean invstd new_mean new_var.
      norm_fusion_forward \<lparr>outputs = []\<rparr> (TensorIn ''x'' 3) None None
        (Some (TensorIn ''running_mean'' 1)) (Some (TensorIn ''running_var'' 1))
        (ScalarIn ''eps'') True (ScalarIn ''momentum'') False (Some Float) False [CHANNEL]
      = Inr (fd', out, mean, invstd)
      \<and> outputs fd' = [(new_mean, Some (TensorIn ''running_mean'' 1)),
                         (new_var, Some (TensorIn ''running_var'' 1))]"
    by auto
  from C8_running_statistics_frame [THEN conjunct1, rule_format, OF i] i
  have 2: "\<exists>out mean invstd.
      norm_fusion_forward \<lparr>outputs = []\<rparr> (TensorIn ''x'' 3) None None
        (Some (TensorIn ''running_mean'' 1)) (Some (TensorIn ''running_var'' 1))
        (ScalarIn ''eps'') False (ScalarIn ''momentum'') False (Some Float) False [CHANNEL]
      = Inr (\<lparr>outputs = []\<rparr>, out, mean, invstd)"
    by auto
  from 1 2 show ?thesis by blast
qed

section \<open>The gradients of the affine parameters\<close>

text \<open>
  C2 (the code departs from it). The claim: the weight gradient \<open>dotProduct \<cdot> invStd\<close> and
  the bias gradient \<open>gradOutputSum\<close> are reduced over the batch axis if and only if BATCH is
  a role. The code: both are summed over axis 0 for every list of roles (lines 361 and
  366), where the forward pass guards the same sum by \<^verbatim>\<open>NamedAxis.BATCH in stat_axes\<close>.
  With roles \<open>{CHANNEL}\<close> axis 0 of \<open>gradOutputSum\<close> is the channel axis: for an output
  gradient with per-channel sums \<open>1\<close> and \<open>10\<close> the returned bias gradient is the single
  number \<open>11\<close>.
\<close>

theorem C2_gradients_always_summed_over_axis_0:
  assumes "norm_fusion_backward fd x grad_output mean invstd weight bias running_mean
             running_var use_input_stats channels_last x_datatype stat_axes
           = Inr (fd', gi, gw, gb)"
  shows "\<exists>ax. resolve_axes x channels_last stat_axes = Inr ax
     \<and> gw = (case weight of None \<Rightarrow> None
              | Some w \<Rightarrow> Some (Sum (Mul (bw_dot_p ax x grad_output mean) invstd) [0]))
     \<and> gb = (case bias of None \<Rightarrow> None
              | Some b \<Rightarrow> Some (Sum (Sum grad_output (x_reduction_axes ax)) [0]))"
  using assms
  by (cases weight; cases bias)
     (auto simp: norm_fusion_backward_def bw_grad_output_sum_def Let_def
           split: if_splits sum.splits)

theorem C2_gradients_always_summed_over_axis_0_witness:
  "\<exists>fd' gi gw gb t s.
     norm_fusion_backward \<lparr>outputs = []\<rparr> (TensorIn ''x'' 3) (TensorIn ''grad_output'' 3)
       (TensorIn ''mean'' 1) (TensorIn ''invstd'' 1) None (Some (TensorIn ''bias'' 1)) None None
       False False (Some Float) [CHANNEL] = Inr (fd', gi, None, Some gb)
   \<and> eval [''grad_output'' \<mapsto> \<lparr>shape = [1, 2, 1], elem = (\<lambda>i. if i = [0, 0, 0] then 1 else 10)\<rparr>]
        gb = Some t
   \<and> shape t = [] \<and> elem t [] = 11
   \<and> eval [''grad_output'' \<mapsto> \<lparr>shape = [1, 2, 1], elem = (\<lambda>i. if i = [0, 0, 0] then 1 else 10)\<rparr>]
        (Sum (TensorIn ''grad_output'' 3) [0, 2]) = Some s
   \<and> shape s = [2] \<and> elem s [0] = 1 \<and> elem s [1] = 10"
proof -
  let ?env = "[''grad_output'' \<mapsto>
                 \<lparr>shape = [1, 2, 1], elem = (\<lambda>i. if i = [0, 0, 0] then 1 else 10)\<rparr>]"
  have "\<exists>r. norm_fusion_backward \<lparr>outputs = []\<rparr> (TensorIn ''x'' 3) (TensorIn ''grad_output'' 3)
       (TensorIn ''mean'' 1) (TensorIn ''invstd'' 1) None (Some (TensorIn ''bias'' 1)) None None
       False False (Some Float) [CHANNEL] = Inr r"
    by (simp add: norm_fusion_backward_def resolve_axes_def tensor_sizes_def Let_def)
  then obtain fd' gi gw gb where t:
    "norm_fusion_backward \<lparr>outputs = []\<rparr> (TensorIn ''x'' 3) (TensorIn ''grad_output'' 3)
       (TensorIn ''mean'' 1) (TensorIn ''invstd'' 1) None (Some (TensorIn ''bias'' 1)) None None
       False False (Some Float) [CHANNEL] = Inr (fd', gi, gw, gb)"
    by (metis prod_cases4)
  from C2_gradients_always_summed_over_axis_0 [OF t] obtain ax where
    ax: "resolve_axes (TensorIn ''x'' 3) False [CHANNEL] = Inr ax" and
    gw: "gw = None" and
    gb: "gb = Some (Sum (Sum (TensorIn ''grad_output'' 3) (x_reduction_axes ax)) [0])"
    by auto
  have red: "x_reduction_axes ax = [0, 2]"
    using ax by (auto simp: resolve_axes_def tensor_sizes_def Let_def upt_rec)
  have "\<exists>t. eval ?env (Sum (Sum (TensorIn ''grad_output'' 3) [0, 2]) [0]) = Some t
          \<and> shape t = [] \<and> elem t [] = 11"
    by (simp add: value_defs upt_rec)
  then obtain tt where tt: "eval ?env (Sum (Sum (TensorIn ''grad_output'' 3) [0, 2]) [0]) = Some tt"
    "shape tt = []" "elem tt [] = 11" by blast
  have "\<exists>s. eval ?env (Sum (TensorIn ''grad_output'' 3) [0, 2]) = Some s
          \<and> shape s = [2] \<and> elem s [0] = 1 \<and> elem s [1] = 10"
    by (simp add: value_defs upt_rec)
  then obtain s where s: "eval ?env (Sum (TensorIn ''grad_output'' 3) [0, 2]) = Some s"
    "shape s = [2]" "elem s [0] = 1" "elem s [1] = 10" by blast
  have t': "norm_fusion_backward \<lparr>outputs = []\<rparr> (TensorIn ''x'' 3) (TensorIn ''grad_output'' 3)
       (TensorIn ''mean'' 1) (TensorIn ''invstd'' 1) None (Some (TensorIn ''bias'' 1)) None None
       False False (Some Float) [CHANNEL]
     = Inr (fd', gi, None, Some (Sum (Sum (TensorIn ''grad_output'' 3) [0, 2]) [0]))"
    using t gw gb red by simp
  from t' tt s show ?thesis by blast
qed


text \<open>
  C3 (the code departs from it). The claim: in the backward pass the weight is broadcast
  over \<open>statAxesNoBatch\<close>, at the channel axis as in the forward pass. The code: the
  backward pass places the weight at axis 0, the batch axis (line 344), while the forward
  pass (line 214) places it at \<open>stat_dims_nobatch\<close>. For two samples and two
  channels with weight \<open>(1, 2)\<close>, the input gradient of sample 0, channel 1 is scaled by
  \<open>1\<close>, and that of sample 1, channel 0 by \<open>2\<close>.
\<close>

theorem C3_backward_weight_broadcast_at_batch_axis:
  assumes "norm_fusion_backward fd x grad_output mean invstd (Some w) bias running_mean
             running_var use_input_stats channels_last x_datatype stat_axes
           = Inr (fd', gi, gw, gb)"
  shows "\<exists>ax. resolve_axes x channels_last stat_axes = Inr ax
     \<and> bw_grad_scale ax invstd (Some w)
         = Mul (BroadcastInDim invstd (tensor_sizes x) [0, channel_dim ax])
               (BroadcastInDim w (tensor_sizes x) [0])
     \<and> gi = (if use_input_stats
              then Mul (Sub (Sub grad_output
                          (Mul (Sub x (bw_mean ax mean))
                             (bw_proj_scale ax x grad_output mean invstd)))
                          (bw_grad_mean ax grad_output))
                     (bw_grad_scale ax invstd (Some w))
              else Mul grad_output (bw_grad_scale ax invstd (Some w)))
     \<and> (\<forall>v. affine ax (Some w) None v
              = Mul v (BroadcastInDim w (tensor_sizes x) (stat_dims_nobatch ax)))
     \<and> stat_dims_nobatch ax = (if CHANNEL \<in> set stat_axes then [channel_dim ax] else [])"
proof -
  from assms obtain ax where ax: "resolve_axes x channels_last stat_axes = Inr ax"
    and gi: "gi = bw_grad_input ax x grad_output mean invstd (Some w) use_input_stats"
    by (auto simp: norm_fusion_backward_def Let_def split: if_splits sum.splits)
  note r = resolve_axes_Inr [OF ax]
  show ?thesis
    apply (rule exI [of _ ax])
    apply (intro conjI)
        apply (rule ax)
       apply (simp add: bw_grad_scale_def bw_invstd_bcast_def r(1))
      apply (simp add: gi bw_grad_input_def Let_def)
     apply (simp add: affine_def r(1))
    apply (rule r(7))
    done
qed

theorem C3_backward_weight_broadcast_at_batch_axis_witness:
  "\<exists>fd' gi gw gb t.
     norm_fusion_backward \<lparr>outputs = []\<rparr> (TensorIn ''x'' 3) (TensorIn ''grad_output'' 3)
       (TensorIn ''mean'' 2) (TensorIn ''invstd'' 2) (Some (TensorIn ''weight'' 1)) None None None
       True False (Some Float) [BATCH, CHANNEL] = Inr (fd', gi, gw, gb)
   \<and> eval [''x'' \<mapsto> \<lparr>shape = [2, 2, 3], elem = (\<lambda>i. real (i ! 2) - 1)\<rparr>,
            ''grad_output'' \<mapsto> \<lparr>shape = [2, 2, 3], elem = (\<lambda>i. if i ! 2 = 1 then 1 else 0)\<rparr>,
            ''mean'' \<mapsto> \<lparr>shape = [2, 2], elem = (\<lambda>i. 0)\<rparr>,
            ''invstd'' \<mapsto> \<lparr>shape = [2, 2], elem = (\<lambda>i. 1)\<rparr>,
            ''weight'' \<mapsto> \<lparr>shape = [2], elem = (\<lambda>i. real (i ! 0) + 1)\<rparr>] gi = Some t
   \<and> shape t = [2, 2, 3]
   \<and> elem t [0, 1, 1] = 2 / 3 \<and> elem t [1, 0, 1] = 4 / 3"
proof -
  let ?env = "[''x'' \<mapsto> \<lparr>shape = [2, 2, 3], elem = (\<lambda>i. real (i ! 2) - 1)\<rparr>,
            ''grad_output'' \<mapsto> \<lparr>shape = [2, 2, 3], elem = (\<lambda>i. if i ! 2 = 1 then 1 else 0)\<rparr>,
            ''mean'' \<mapsto> \<lparr>shape = [2, 2], elem = (\<lambda>i. 0)\<rparr>,
            ''invstd'' \<mapsto> \<lparr>shape = [2, 2], elem = (\<lambda>i. 1)\<rparr>,
            ''weight'' \<mapsto> \<lparr>shape = [2], elem = (\<lambda>i. real (i ! 0) + 1)\<rparr>]"
  have "\<exists>r. norm_fusion_backward \<lparr>outputs = []\<rparr> (TensorIn ''x'' 3) (TensorIn ''grad_output'' 3)
       (TensorIn ''mean'' 2) (TensorIn ''invstd'' 2) (Some (TensorIn ''weight'' 1)) None None None
       True False (Some Float) [BATCH, CHANNEL] = Inr r"
    by (simp add: norm_fusion_backward_def resolve_axes_def tensor_sizes_def Let_def)
  then obtain fd' gi gw gb where t:
    "norm_fusion_backward \<lparr>outputs = []\<rparr> (TensorIn ''x'' 3) (TensorIn ''grad_output'' 3)
       (TensorIn ''mean'' 2) (TensorIn ''invstd'' 2) (Some (TensorIn ''weight'' 1)) None None None
       True False (Some Float) [BATCH, CHANNEL] = Inr (fd', gi, gw, gb)"
    by (metis prod_cases4)
  from C3_backward_weight_broadcast_at_batch_axis [OF t] obtain ax where
    ax: "resolve_axes (TensorIn ''x'' 3) False [BATCH, CHANNEL] = Inr ax" and
    gi: "gi = (if True
              then Mul (Sub (Sub (TensorIn ''grad_output'' 3)
                          (Mul (Sub (TensorIn ''x'' 3) (bw_mean ax (TensorIn ''mean'' 2)))
                             (bw_proj_scale ax (TensorIn ''x'' 3) (TensorIn ''grad_output'' 3)
                                (TensorIn ''mean'' 2) (TensorIn ''invstd'' 2))))
                          (bw_grad_mean ax (TensorIn ''grad_output'' 3)))
                     (bw_grad_scale ax (TensorIn ''invstd'' 2) (Some (TensorIn ''weight'' 1)))
              else Mul (TensorIn ''grad_output'' 3)
                     (bw_grad_scale ax (TensorIn ''invstd'' 2) (Some (TensorIn ''weight'' 1))))"
    by blast
  have axv: "ax = \<lparr>dyn_shape = [Size (TensorIn ''x'' 3) 0, Size (TensorIn ''x'' 3) 1,
                                 Size (TensorIn ''x'' 3) 2],
       num_dims = 3, batch_size = Size (TensorIn ''x'' 3) 0, channel_dim = 1,
       num_channels = Size (TensorIn ''x'' 3) 1, stat_dims = [0, 1], stat_dims_nobatch = [1],
       num_stats = Mul (Mul (ConstInt 1) (Size (TensorIn ''x'' 3) 0)) (Size (TensorIn ''x'' 3) 1),
       x_reduction_axes = [2], num_features = Mul (ConstInt 1) (Size (TensorIn ''x'' 3) 2)\<rparr>"
    using ax by (auto simp: resolve_axes_def tensor_sizes_def Let_def upt_rec)
  have "\<exists>t. eval ?env gi = Some t \<and> shape t = [2, 2, 3]
          \<and> elem t [0, 1, 1] = 2 / 3 \<and> elem t [1, 0, 1] = 4 / 3"
    unfolding gi axv
    by (simp add: graph_defs value_defs upt_rec)
  with t show ?thesis by blast
qed

section \<open>Values of the forward pass\<close>

subsection \<open>Indices\<close>

lemma valid_index_length: "valid_index shp i \<Longrightarrow> length i = length shp"
  by (simp add: valid_index_def list_all2_lengthD)

lemma valid_index_nth: "valid_index shp i \<Longrightarrow> k < length shp \<Longrightarrow> i ! k < shp ! k"
  by (simp add: valid_index_def list_all2_conv_all_nth)

lemma valid_index_Nil [simp]: "valid_index [] i \<longleftrightarrow> i = []"
  by (simp add: valid_index_def)

lemma valid_index_drop: "valid_index shp i \<Longrightarrow> valid_index (drop k shp) (drop k i)"
  by (simp add: valid_index_def)

subsection \<open>Values of the elementwise operations\<close>

lemma has_valueI:
  "eval env e = Some t \<Longrightarrow> shape t = shp \<Longrightarrow> (\<And>i. valid_index shp i \<Longrightarrow> elem t i = f i)
   \<Longrightarrow> has_value env e shp f"
  by (auto simp: has_value_def)

lemma has_value_eval: "eval env e = Some t \<Longrightarrow> has_value env e (shape t) (elem t)"
  by (simp add: has_value_def)

lemma has_value_cong:
  "has_value env e shp f \<Longrightarrow> (\<And>i. valid_index shp i \<Longrightarrow> f i = g i) \<Longrightarrow> has_value env e shp g"
  by (auto simp: has_value_def)

lemma binary_right_suffix:
  assumes "shape b = drop (length (shape a) - length (shape b)) (shape a)"
  shows "\<exists>t. binary f a b = Some t \<and> shape t = shape a
           \<and> (\<forall>i. valid_index (shape a) i \<longrightarrow>
                 elem t i = f (elem a i) (elem b (drop (length (shape a) - length (shape b)) i)))"
proof (cases "length (shape a) \<le> length (shape b)")
  case True
  with assms have "shape b = shape a"
    by (metis diff_is_0_eq drop0)
  then show ?thesis by (simp add: binary_def)
next
  case False
  then show ?thesis using assms by (simp add: binary_def)
qed

lemma lift2_has_value_right:
  assumes a: "has_value env a sa fa" and b: "has_value env b sb fb"
      and s: "sb = drop (length sa - length sb) sa"
  shows "\<exists>t. lift2 (binary f) (eval env a) (eval env b) = Some t \<and> shape t = sa
     \<and> (\<forall>i. valid_index sa i \<longrightarrow> elem t i = f (fa i) (fb (drop (length sa - length sb) i)))"
proof -
  from a obtain ta where ta: "eval env a = Some ta" "shape ta = sa"
    "\<And>i. valid_index sa i \<Longrightarrow> elem ta i = fa i" by (auto simp: has_value_def)
  from b obtain tb where tb: "eval env b = Some tb" "shape tb = sb"
    "\<And>i. valid_index sb i \<Longrightarrow> elem tb i = fb i" by (auto simp: has_value_def)
  have "shape tb = drop (length (shape ta) - length (shape tb)) (shape ta)"
    using s ta(2) tb(2) by simp
  from binary_right_suffix [OF this, of f] obtain t where
    t: "binary f ta tb = Some t" "shape t = shape ta"
    "\<And>i. valid_index (shape ta) i \<Longrightarrow>
       elem t i = f (elem ta i) (elem tb (drop (length (shape ta) - length (shape tb)) i))"
    by blast
  have "elem t i = f (fa i) (fb (drop (length sa - length sb) i))" if v: "valid_index sa i" for i
  proof -
    have "valid_index sb (drop (length sa - length sb) i)"
      using valid_index_drop [OF v, of "length sa - length sb"] s by simp
    then show ?thesis using t(3) [of i] v ta tb by simp
  qed
  then show ?thesis using t ta tb by (simp add: lift2_def)
qed

text \<open>Operands of one shape, and a tensor with a scalar.\<close>

lemma valid_index_drop_all: "valid_index s i \<Longrightarrow> drop (length s) i = []"
  by (simp add: valid_index_length)

lemma has_value_same:
  assumes "has_value env a s fa" and "has_value env b s fb"
  shows "has_value env (Add a b) s (\<lambda>i. fa i + fb i)"
    and "has_value env (Sub a b) s (\<lambda>i. fa i - fb i)"
    and "has_value env (Mul a b) s (\<lambda>i. fa i * fb i)"
    and "has_value env (Div a b) s (\<lambda>i. fa i / fb i)"
  using lift2_has_value_right [OF assms, of "(+)"] lift2_has_value_right [OF assms, of "(-)"]
    lift2_has_value_right [OF assms, of "(*)"] lift2_has_value_right [OF assms, of "(/)"]
  by (auto simp: has_value_def)

lemma has_value_scalar_right:
  assumes "has_value env a s fa" and "has_value env b [] fb"
  shows "has_value env (Add a b) s (\<lambda>i. fa i + fb [])"
    and "has_value env (Sub a b) s (\<lambda>i. fa i - fb [])"
    and "has_value env (Mul a b) s (\<lambda>i. fa i * fb [])"
    and "has_value env (Div a b) s (\<lambda>i. fa i / fb [])"
  using lift2_has_value_right [OF assms, of "(+)"] lift2_has_value_right [OF assms, of "(-)"]
    lift2_has_value_right [OF assms, of "(*)"] lift2_has_value_right [OF assms, of "(/)"]
  by (auto simp: has_value_def valid_index_drop_all)

lemma has_value_unary:
  assumes "has_value env a s fa"
  shows "has_value env (Rsqrt a) s (\<lambda>i. 1 / sqrt (fa i))"
    and "has_value env (Reciprocal a) s (\<lambda>i. inverse (fa i))"
    and "has_value env (Cast a dt) s fa"
  using assms by (auto simp: has_value_def lift1_def pointwise_def)

lemma has_value_const:
  "has_value env (ConstInt c) [] (\<lambda>i. real_of_int c)"
  "has_value env (ConstFloat r) [] (\<lambda>i. r)"
  by (auto simp: has_value_def scalar_def)

lemma has_value_Size:
  assumes "has_value env x s fx" and "k < length s"
  shows "has_value env (Size x k) [] (\<lambda>i. real (s ! k))"
  using assms by (auto simp: has_value_def lift1_def scalar_def)

subsection \<open>Shapes and broadcasts\<close>

lemma those_map_Some: "those (map (\<lambda>k. Some (f k)) ks) = Some (map f ks)"
  by (induction ks) simp_all

lemma as_size_scalar_nat [simp]: "as_size (scalar (real n)) = Some n"
  by (simp add: as_size_def scalar_def)

lemma eval_tensor_sizes:
  assumes "eval env x = Some t" and "ndim x = length (shape t)"
  shows "those (map (\<lambda>s. Option.bind (eval env s) as_size) (tensor_sizes x)) = Some (shape t)"
proof -
  have "map (\<lambda>s. Option.bind (eval env s) as_size) (tensor_sizes x)
        = map (\<lambda>k. Some (shape t ! k)) [0..<length (shape t)]"
    using assms by (simp add: tensor_sizes_def lift1_def)
  then show ?thesis by (simp add: those_map_Some map_nth)
qed

lemma valid_index_map_nth:
  assumes v: "valid_index out i"
      and d: "list_all2 (\<lambda>d n. d < length out \<and> out ! d = n) dims s"
  shows "valid_index s (map ((!) i) dims)"
  unfolding valid_index_def list_all2_conv_all_nth
proof (intro conjI allI impI)
  show "length (map ((!) i) dims) = length s"
    using d by (simp add: list_all2_lengthD)
next
  fix k assume k: "k < length (map ((!) i) dims)"
  then have kd: "k < length dims" by simp
  from d kd have dk: "dims ! k < length out" and eq: "out ! (dims ! k) = s ! k"
    by (auto simp: list_all2_conv_all_nth)
  have 1: "i ! (dims ! k) < out ! (dims ! k)" by (rule valid_index_nth [OF v dk])
  have 2: "map ((!) i) dims ! k = i ! (dims ! k)" using kd by simp
  from 1 show "map ((!) i) dims ! k < s ! k" unfolding 2 eq .
qed

lemma has_value_broadcast:
  assumes a: "has_value env a s fa"
      and x: "eval env x = Some tx" "ndim x = length (shape tx)"
      and sorted: "sorted_wrt (<) dims"
      and d: "list_all2 (\<lambda>d n. d < length (shape tx) \<and> shape tx ! d = n) dims s"
  shows "has_value env (BroadcastInDim a (tensor_sizes x) dims) (shape tx)
           (\<lambda>i. fa (map ((!) i) dims))"
proof -
  from a obtain ta where ta: "eval env a = Some ta" "shape ta = s"
    "\<And>i. valid_index s i \<Longrightarrow> elem ta i = fa i" by (auto simp: has_value_def)
  have "eval env (BroadcastInDim a (tensor_sizes x) dims)
        = Some \<lparr>shape = shape tx, elem = (\<lambda>i. elem ta (map ((!) i) dims))\<rparr>"
    using ta(1,2) eval_tensor_sizes [OF x] sorted d by (simp add: broadcast_in_dim_def)
  then show ?thesis
    using ta(3) valid_index_map_nth [OF _ d] by (auto simp: has_value_def)
qed

subsection \<open>Slices and reductions\<close>








subsection \<open>The axes of the statistics\<close>

lemma filter_mem_sorted:
  assumes "sorted_wrt (<) xs" and "\<forall>x\<in>set xs. x < n"
  shows "filter (\<lambda>d. d \<in> set xs) [0..<n] = xs"
proof (rule sorted_distinct_set_unique)
  show "sorted (filter (\<lambda>d. d \<in> set xs) [0..<n])" by (simp add: sorted_filter [where f = id, simplified])
  show "distinct (filter (\<lambda>d. d \<in> set xs) [0..<n])" by simp
  show "sorted xs" "distinct xs" using assms(1) by (simp_all add: strict_sorted_iff)
  show "set (filter (\<lambda>d. d \<in> set xs) [0..<n]) = set xs" using assms(2) by auto
qed

lemma kept_axes_reduction:
  assumes "sorted_wrt (<) xs" and "\<forall>x\<in>set xs. x < n"
  shows "kept_axes n (filter (\<lambda>d. d \<notin> set xs) [0..<n]) = xs"
proof -
  have "kept_axes n (filter (\<lambda>d. d \<notin> set xs) [0..<n]) = filter (\<lambda>d. d \<in> set xs) [0..<n]"
    unfolding kept_axes_def by (rule filter_cong [OF refl]) auto
  then show ?thesis using filter_mem_sorted [OF assms] by simp
qed

lemma resolve_axes_stat_dims:
  assumes ax: "resolve_axes x cl sa = Inr ax" and rank: "2 \<le> ndim x"
  shows "sorted_wrt (<) (stat_dims ax)" and "\<forall>d\<in>set (stat_dims ax). d < ndim x"
    and "sorted_wrt (<) (stat_dims_nobatch ax)" and "\<forall>d\<in>set (stat_dims_nobatch ax). d < ndim x"
    and "distinct (x_reduction_axes ax)" and "\<forall>d\<in>set (x_reduction_axes ax). d < ndim x"
    and "kept_axes (ndim x) (x_reduction_axes ax) = stat_dims ax"
proof -
  note r = resolve_axes_Inr [OF ax]
  have cd: "0 < channel_dim ax" "channel_dim ax < ndim x" using r(3,4) rank by auto
  show s: "sorted_wrt (<) (stat_dims ax)" using r(6) cd by auto
  show b: "\<forall>d\<in>set (stat_dims ax). d < ndim x" using r(6) cd by auto
  show "sorted_wrt (<) (stat_dims_nobatch ax)" using r(7) by auto
  show "\<forall>d\<in>set (stat_dims_nobatch ax). d < ndim x" using r(7) cd by auto
  show "distinct (x_reduction_axes ax)" using r(8) by simp
  show "\<forall>d\<in>set (x_reduction_axes ax). d < ndim x" using r(8) by simp
  show "kept_axes (ndim x) (x_reduction_axes ax) = stat_dims ax"
    unfolding r(8) by (rule kept_axes_reduction [OF s b])
qed

lemma list_all2_restrict:
  assumes "\<forall>d\<in>set dims. d < length s"
  shows "list_all2 (\<lambda>d n. d < length s \<and> s ! d = n) dims (map ((!) s) dims)"
  using assms by (simp add: list_all2_map2 list_all2_same)

lemma has_value_param:
  assumes x: "eval env x = Some tx" "ndim x = length (shape tx)"
      and p: "eval env p = Some tp" "shape tp = map ((!) (shape tx)) dims"
      and d: "sorted_wrt (<) dims" "\<forall>d\<in>set dims. d < length (shape tx)"
  shows "has_value env (BroadcastInDim p (tensor_sizes x) dims) (shape tx)
           (param_at env (Some p) dims c)"
proof -
  have "has_value env (BroadcastInDim p (tensor_sizes x) dims) (shape tx)
          (\<lambda>i. elem tp (map ((!) i) dims))"
    using has_value_broadcast [OF has_value_eval [OF p(1)] x d(1)] list_all2_restrict [OF d(2)]
    by (simp add: p(2))
  then show ?thesis by (rule has_value_cong) (simp add: param_at_def p(1))
qed

lemma affine_value:
  assumes ax: "resolve_axes x cl sa = Inr ax" and rank: "2 \<le> ndim x"
      and x: "eval env x = Some tx" "ndim x = length (shape tx)"
      and w: "\<forall>w. weight = Some w \<longrightarrow>
                (\<exists>tw. eval env w = Some tw
                   \<and> shape tw = map ((!) (shape tx)) (stat_dims_nobatch ax))"
      and b: "\<forall>b. bias = Some b \<longrightarrow>
                (\<exists>tb. eval env b = Some tb
                   \<and> shape tb = map ((!) (shape tx)) (stat_dims_nobatch ax))"
      and v: "has_value env v (shape tx) fv"
  shows "has_value env (affine ax weight bias v) (shape tx)
           (\<lambda>i. fv i * param_at env weight (stat_dims_nobatch ax) 1 i
                 + param_at env bias (stat_dims_nobatch ax) 0 i)"
proof -
  note r = resolve_axes_Inr [OF ax]
  note s = resolve_axes_stat_dims [OF ax rank]
  let ?nb = "stat_dims_nobatch ax"
  have nb: "sorted_wrt (<) ?nb" "\<forall>d\<in>set ?nb. d < length (shape tx)"
    using s(3,4) x(2) by simp_all
  let ?v1 = "case weight of None \<Rightarrow> v
             | Some w \<Rightarrow> Mul v (BroadcastInDim w (tensor_sizes x) ?nb)"
  have v1: "has_value env ?v1 (shape tx) (\<lambda>i. fv i * param_at env weight ?nb 1 i)"
  proof (cases weight)
    case None
    then show ?thesis using v by (simp add: param_at_def)
  next
    case (Some w')
    with w obtain tw where tw: "eval env w' = Some tw" "shape tw = map ((!) (shape tx)) ?nb"
      by blast
    show ?thesis
      using has_value_same(3) [OF v has_value_param [OF x tw nb, of 1]] Some by simp
  qed
  have "has_value env (case bias of None \<Rightarrow> ?v1
             | Some b \<Rightarrow> Add ?v1 (BroadcastInDim b (tensor_sizes x) ?nb)) (shape tx)
          (\<lambda>i. fv i * param_at env weight ?nb 1 i + param_at env bias ?nb 0 i)"
  proof (cases bias)
    case None
    then show ?thesis using v1 by (simp add: param_at_def)
  next
    case (Some b')
    with b obtain tb where tb: "eval env b' = Some tb" "shape tb = map ((!) (shape tx)) ?nb"
      by blast
    show ?thesis
      using has_value_same(1) [OF v1 has_value_param [OF x tb nb, of 0]] Some by simp
  qed
  then show ?thesis by (simp add: affine_def r(1) Let_def cong: option.case_cong)
qed

lemma fresh_statistics_value:
  assumes ax: "resolve_axes x cl sa = Inr ax" and rank: "2 \<le> ndim x"
      and x: "eval env x = Some tx" "ndim x = length (shape tx)"
  shows "has_value env (Mean x (x_reduction_axes ax) c) (map ((!) (shape tx)) (stat_dims ax))
           (slice_mean tx (x_reduction_axes ax))"
    and "c < prod_list (map ((!) (shape tx)) (x_reduction_axes ax)) \<Longrightarrow>
         has_value env (Var x (x_reduction_axes ax) c) (map ((!) (shape tx)) (stat_dims ax))
           (slice_var tx (x_reduction_axes ax) c)"
proof -
  note s = resolve_axes_stat_dims [OF ax rank]
  have red: "reducible tx (x_reduction_axes ax)"
    using s(5,6) x(2) by (simp add: reducible_def)
  have rs: "reduced_shape tx (x_reduction_axes ax) = map ((!) (shape tx)) (stat_dims ax)"
    using s(7) x(2) by (simp add: reduced_shape_def)
  show "has_value env (Mean x (x_reduction_axes ax) c) (map ((!) (shape tx)) (stat_dims ax))
           (slice_mean tx (x_reduction_axes ax))"
    using x(1) red rs by (simp add: has_value_def lift1_def mean_axes_def)
  show "has_value env (Var x (x_reduction_axes ax) c) (map ((!) (shape tx)) (stat_dims ax))
           (slice_var tx (x_reduction_axes ax) c)"
    if "c < prod_list (map ((!) (shape tx)) (x_reduction_axes ax))"
    using x(1) red rs that by (simp add: has_value_def lift1_def var_axes_def)
qed






text \<open>
  Where the features of a statistic do not outnumber the correction (one feature with
  \<^verbatim>\<open>unbiased\<close> true), the variance and with it the output have no value.
\<close>

lemma variance_undefined:
  assumes "eval env x = Some tx"
      and "\<not> c < prod_list (map ((!) (shape tx)) axes)"
  shows "eval env (Var x axes c) = None"
  using assms by (simp add: lift1_def var_axes_def)




section \<open>Inference mode\<close>

lemma forward_inference_result:
  assumes "resolve_axes x channels_last stat_axes = Inr ax"
  shows "norm_fusion_forward fd x weight bias (Some running_mean) (Some running_var) eps False
           momentum channels_last x_datatype unbiased stat_axes
         = Inr (fd,
             affine ax weight bias
               (Mul (Sub x (BroadcastInDim running_mean (tensor_sizes x) (stat_dims_nobatch ax)))
                  (BroadcastInDim (Rsqrt (Add running_var eps)) (tensor_sizes x)
                     (stat_dims_nobatch ax))),
             running_mean, Rsqrt (Add running_var eps))"
  using assms resolve_axes_Inr(1) [OF assms] by (simp add: norm_fusion_forward_def Let_def)

text \<open>
  C7. A forward call with \<^verbatim>\<open>use_input_stats\<close> false and both running statistics supplied
  returns the running mean itself as the mean and \<open>rsqrt(running_var + eps)\<close> as the inverse
  standard deviation, and as output the optional scale and shift applied to
  \<open>(x - broadcast(running_mean)) \<cdot> broadcast(rsqrt(running_var + eps))\<close>, both broadcasts at
  \<open>stat_dims_nobatch\<close> (never at the batch axis). On an input of rank at least two, with
  running statistics and parameters of the sizes of \<open>stat_dims_nobatch\<close>, the output has
  the value \<open>(x - mean) / sqrt (var + eps)\<close> at every index, times the weight and plus the
  bias where these are present, and the returned inverse standard deviation is
  \<open>1 / sqrt (var + eps)\<close>.
\<close>

theorem C7_inference_uses_running_statistics:
  assumes ax: "resolve_axes x channels_last stat_axes = Inr ax" and rank: "2 \<le> ndim x"
      and x: "eval env x = Some tx" "ndim x = length (shape tx)"
      and rm: "eval env running_mean = Some tm"
              "shape tm = map ((!) (shape tx)) (stat_dims_nobatch ax)"
      and rv: "eval env running_var = Some tv"
              "shape tv = map ((!) (shape tx)) (stat_dims_nobatch ax)"
      and e: "eval env eps = Some te" "shape te = []"
      and w: "\<forall>w. weight = Some w \<longrightarrow>
                (\<exists>tw. eval env w = Some tw
                   \<and> shape tw = map ((!) (shape tx)) (stat_dims_nobatch ax))"
      and b: "\<forall>b. bias = Some b \<longrightarrow>
                (\<exists>tb. eval env b = Some tb
                   \<and> shape tb = map ((!) (shape tx)) (stat_dims_nobatch ax))"
  shows "\<exists>out t ti.
           norm_fusion_forward fd x weight bias (Some running_mean) (Some running_var) eps False
             momentum channels_last x_datatype unbiased stat_axes
           = Inr (fd, out, running_mean, Rsqrt (Add running_var eps))
         \<and> out = affine ax weight bias
               (Mul (Sub x (BroadcastInDim running_mean (tensor_sizes x) (stat_dims_nobatch ax)))
                  (BroadcastInDim (Rsqrt (Add running_var eps)) (tensor_sizes x)
                     (stat_dims_nobatch ax)))
         \<and> eval env out = Some t \<and> shape t = shape tx
         \<and> (\<forall>i. valid_index (shape tx) i \<longrightarrow>
                elem t i
                = (elem tx i - elem tm (map ((!) i) (stat_dims_nobatch ax)))
                    * (1 / sqrt (elem tv (map ((!) i) (stat_dims_nobatch ax)) + elem te []))
                    * param_at env weight (stat_dims_nobatch ax) 1 i
                  + param_at env bias (stat_dims_nobatch ax) 0 i)
         \<and> eval env (Rsqrt (Add running_var eps)) = Some ti \<and> shape ti = shape tv
         \<and> (\<forall>j. valid_index (shape tv) j \<longrightarrow> elem ti j = 1 / sqrt (elem tv j + elem te []))"
proof -
  let ?nb = "stat_dims_nobatch ax"
  note s = resolve_axes_stat_dims [OF ax rank]
  have nb: "sorted_wrt (<) ?nb" "\<forall>d\<in>set ?nb. d < length (shape tx)"
    using s(3,4) x(2) by simp_all
  note l = list_all2_restrict [OF nb(2)]
  have eps: "has_value env eps [] (elem te)" using has_value_eval [OF e(1)] e(2) by simp
  have mb: "has_value env (BroadcastInDim running_mean (tensor_sizes x) ?nb) (shape tx)
              (\<lambda>i. elem tm (map ((!) i) ?nb))"
    using has_value_broadcast [OF has_value_eval [OF rm(1)] x nb(1)] l by (simp add: rm(2))
  note inv = has_value_unary(1) [OF has_value_scalar_right(1) [OF has_value_eval [OF rv(1)] eps]]
  have ib: "has_value env (BroadcastInDim (Rsqrt (Add running_var eps)) (tensor_sizes x) ?nb)
              (shape tx) (\<lambda>i. 1 / sqrt (elem tv (map ((!) i) ?nb) + elem te []))"
    using has_value_broadcast [OF inv x nb(1)] l by (simp add: rv(2))
  note nrm = has_value_same(3) [OF has_value_same(2) [OF has_value_eval [OF x(1)] mb] ib]
  from affine_value [OF ax rank x w b nrm] obtain t where
    t: "eval env (affine ax weight bias
               (Mul (Sub x (BroadcastInDim running_mean (tensor_sizes x) ?nb))
                  (BroadcastInDim (Rsqrt (Add running_var eps)) (tensor_sizes x) ?nb))) = Some t"
      "shape t = shape tx"
      "\<forall>i. valid_index (shape tx) i \<longrightarrow>
                elem t i
                = (elem tx i - elem tm (map ((!) i) ?nb))
                    * (1 / sqrt (elem tv (map ((!) i) ?nb) + elem te []))
                    * param_at env weight ?nb 1 i
                  + param_at env bias ?nb 0 i"
    unfolding has_value_def by blast
  from inv obtain ti where
    ti: "eval env (Rsqrt (Add running_var eps)) = Some ti" "shape ti = shape tv"
      "\<forall>j. valid_index (shape tv) j \<longrightarrow> elem ti j = 1 / sqrt (elem tv j + elem te [])"
    unfolding has_value_def by blast
  from forward_inference_result [OF ax] t ti show ?thesis by blast
qed

theorem C7_inference_uses_running_statistics_witness:
  "\<exists>out t ti.
     norm_fusion_forward \<lparr>outputs = []\<rparr> (TensorIn ''x'' 3) None None
       (Some (TensorIn ''running_mean'' 1)) (Some (TensorIn ''running_var'' 1))
       (ScalarIn ''eps'') False (ScalarIn ''momentum'') False (Some Float) False [CHANNEL]
     = Inr (\<lparr>outputs = []\<rparr>, out, TensorIn ''running_mean'' 1,
            Rsqrt (Add (TensorIn ''running_var'' 1) (ScalarIn ''eps'')))
   \<and> eval [''x'' \<mapsto> \<lparr>shape = [2, 2, 1], elem = (\<lambda>i. real (i ! 0) + 10 * real (i ! 1))\<rparr>,
            ''running_mean'' \<mapsto> \<lparr>shape = [2], elem = (\<lambda>i. real (i ! 0) + 1)\<rparr>,
            ''running_var'' \<mapsto> \<lparr>shape = [2], elem = (\<lambda>i. 3)\<rparr>,
            ''eps'' \<mapsto> scalar 1] out = Some t
   \<and> shape t = [2, 2, 1] \<and> elem t [0, 0, 0] = - 1 / 2 \<and> elem t [1, 1, 0] = 9 / 2
   \<and> eval [''x'' \<mapsto> \<lparr>shape = [2, 2, 1], elem = (\<lambda>i. real (i ! 0) + 10 * real (i ! 1))\<rparr>,
            ''running_mean'' \<mapsto> \<lparr>shape = [2], elem = (\<lambda>i. real (i ! 0) + 1)\<rparr>,
            ''running_var'' \<mapsto> \<lparr>shape = [2], elem = (\<lambda>i. 3)\<rparr>,
            ''eps'' \<mapsto> scalar 1]
        (Rsqrt (Add (TensorIn ''running_var'' 1) (ScalarIn ''eps''))) = Some ti
   \<and> shape ti = [2] \<and> elem ti [1] = 1 / 2"
proof -
  let ?env = "[''x'' \<mapsto> \<lparr>shape = [2, 2, 1], elem = (\<lambda>i. real (i ! 0) + 10 * real (i ! 1))\<rparr>,
            ''running_mean'' \<mapsto> \<lparr>shape = [2], elem = (\<lambda>i. real (i ! 0) + 1)\<rparr>,
            ''running_var'' \<mapsto> \<lparr>shape = [2], elem = (\<lambda>i. 3)\<rparr>,
            ''eps'' \<mapsto> scalar 1]"
  let ?x = "TensorIn ''x'' 3"
  let ?tx = "\<lparr>shape = [2, 2, 1], elem = (\<lambda>i. real (i ! 0) + 10 * real (i ! 1))\<rparr>"
  let ?tm = "\<lparr>shape = [2], elem = (\<lambda>i. real (i ! 0) + 1)\<rparr>"
  let ?tv = "\<lparr>shape = [2], elem = (\<lambda>i. 3 :: real)\<rparr>"
  let ?ax = "\<lparr>dyn_shape = [Size ?x 0, Size ?x 1, Size ?x 2], num_dims = 3,
       batch_size = Size ?x 0, channel_dim = 1, num_channels = Size ?x 1, stat_dims = [1],
       stat_dims_nobatch = [1], num_stats = Mul (ConstInt 1) (Size ?x 1),
       x_reduction_axes = [0, 2],
       num_features = Mul (Mul (ConstInt 1) (Size ?x 0)) (Size ?x 2)\<rparr>"
  have ax: "resolve_axes ?x False [CHANNEL] = Inr ?ax"
    by (simp add: resolve_axes_def tensor_sizes_def Let_def upt_rec)
  have rank: "2 \<le> ndim ?x" by simp
  have x: "eval ?env ?x = Some ?tx" "ndim ?x = length (shape ?tx)"
    by (simp_all add: lift1_def)
  have rm: "eval ?env (TensorIn ''running_mean'' 1) = Some ?tm"
    "shape ?tm = map ((!) (shape ?tx)) (stat_dims_nobatch ?ax)"
    by (simp_all add: lift1_def)
  have rv: "eval ?env (TensorIn ''running_var'' 1) = Some ?tv"
    "shape ?tv = map ((!) (shape ?tx)) (stat_dims_nobatch ?ax)"
    by (simp_all add: lift1_def)
  have e: "eval ?env (ScalarIn ''eps'') = Some (scalar 1)" "shape (scalar 1) = []"
    by (simp_all add: lift1_def scalar_def)
  have w: "\<forall>w. (None :: val option) = Some w \<longrightarrow>
             (\<exists>tw. eval ?env w = Some tw
                \<and> shape tw = map ((!) (shape ?tx)) (stat_dims_nobatch ?ax))"
    by simp
  from C7_inference_uses_running_statistics [OF ax rank x rm rv e w w,
      of "\<lparr>outputs = []\<rparr>" "ScalarIn ''momentum''" "Some Float" False]
  obtain out t ti where
    f: "norm_fusion_forward \<lparr>outputs = []\<rparr> ?x None None
       (Some (TensorIn ''running_mean'' 1)) (Some (TensorIn ''running_var'' 1))
       (ScalarIn ''eps'') False (ScalarIn ''momentum'') False (Some Float) False [CHANNEL]
     = Inr (\<lparr>outputs = []\<rparr>, out, TensorIn ''running_mean'' 1,
            Rsqrt (Add (TensorIn ''running_var'' 1) (ScalarIn ''eps'')))"
    and t: "eval ?env out = Some t" "shape t = shape ?tx"
    and el: "\<forall>i. valid_index (shape ?tx) i \<longrightarrow>
                elem t i
                = (elem ?tx i - elem ?tm (map ((!) i) (stat_dims_nobatch ?ax)))
                    * (1 / sqrt (elem ?tv (map ((!) i) (stat_dims_nobatch ?ax))
                                 + elem (scalar 1) []))
                    * param_at ?env None (stat_dims_nobatch ?ax) 1 i
                  + param_at ?env None (stat_dims_nobatch ?ax) 0 i"
    and ti: "eval ?env (Rsqrt (Add (TensorIn ''running_var'' 1) (ScalarIn ''eps''))) = Some ti"
      "shape ti = shape ?tv"
    and eli: "\<forall>j. valid_index (shape ?tv) j \<longrightarrow>
                elem ti j = 1 / sqrt (elem ?tv j + elem (scalar 1) [])"
    by blast
  have "elem t [0, 0, 0] = - 1 / 2" "elem t [1, 1, 0] = 9 / 2"
    using el [rule_format, of "[0, 0, 0]"] el [rule_format, of "[1, 1, 0]"]
    by (simp_all add: valid_index_def param_at_def scalar_def)
  moreover have "elem ti [1] = 1 / 2"
    using eli [rule_format, of "[1]"] by (simp add: valid_index_def scalar_def)
  ultimately show ?thesis using f t ti by auto
qed

section \<open>The variance merged into the running variance\<close>

lemma length_product_lists_prod:
  "length (product_lists xss) = prod_list (map length xss)"
proof (induction xss)
  case Nil
  show ?case by simp
next
  case (Cons xs xss)
  have "length (concat (map (\<lambda>x. map (Cons x) (product_lists xss)) xs))
        = length xs * length (product_lists xss)"
    by (induction xs) simp_all
  then show ?case using Cons by simp
qed

lemma prod_list_if_filter:
  "prod_list (map (\<lambda>d. if P d then f d else (1::nat)) xs) = prod_list (map f (filter P xs))"
  by (induction xs) simp_all

lemma length_slice:
  assumes "sorted_wrt (<) axes" and "\<forall>d\<in>set axes. d < length shp"
  shows "length (slice shp axes j) = prod_list (map ((!) shp) axes)"
proof -
  have "length (slice shp axes j)
        = prod_list (map (\<lambda>d. if d \<in> set axes then shp ! d else 1) [0..<length shp])"
    unfolding slice_def length_product_lists_prod map_map
    by (rule arg_cong [where f = prod_list], rule map_cong [OF refl]) simp
  also have "\<dots> = prod_list (map ((!) shp) (filter (\<lambda>d. d \<in> set axes) [0..<length shp]))"
    by (rule prod_list_if_filter)
  also have "filter (\<lambda>d. d \<in> set axes) [0..<length shp] = axes"
    by (rule filter_mem_sorted [OF assms])
  finally show ?thesis .
qed

lemma foldl_sizes_value:
  assumes x: "has_value env x s fx" and a: "has_value env a [] (\<lambda>i. real n)"
      and d: "\<forall>d\<in>set ds. d < length s"
  shows "has_value env (foldl (\<lambda>nf d. Mul nf (Size x d)) a ds) []
           (\<lambda>i. real (n * prod_list (map ((!) s) ds)))"
  using a d
proof (induction ds arbitrary: a n)
  case Nil
  then show ?case by simp
next
  case (Cons d ds)
  have "has_value env (Mul a (Size x d)) [] (\<lambda>i. real n * real (s ! d))"
    using has_value_same(3) [OF Cons.prems(1) has_value_Size [OF x, of d]] Cons.prems(2)
    by simp
  then have "has_value env (Mul a (Size x d)) [] (\<lambda>i. real (n * s ! d))" by simp
  from Cons.IH [OF this] Cons.prems(2) show ?case by (simp add: mult.assoc)
qed

lemma num_features_value:
  assumes ax: "resolve_axes x cl sa = Inr ax" and rank: "2 \<le> ndim x"
      and x: "eval env x = Some tx" "ndim x = length (shape tx)"
  shows "has_value env (num_features ax) []
           (\<lambda>i. real (prod_list (map ((!) (shape tx)) (x_reduction_axes ax))))"
proof -
  note r = resolve_axes_Inr [OF ax]
  note s = resolve_axes_stat_dims [OF ax rank]
  have d: "\<forall>d\<in>set (x_reduction_axes ax). d < length (shape tx)" using s(6) x(2) by simp
  have one: "has_value env (ConstInt 1) [] (\<lambda>i. real 1)"
    using has_value_const(1) [of env 1] by simp
  from foldl_sizes_value [OF has_value_eval [OF x(1)] one d] show ?thesis
    unfolding r(9) by simp
qed

lemma slice_length_features:
  assumes ax: "resolve_axes x cl sa = Inr ax" and rank: "2 \<le> ndim x"
      and x: "ndim x = length (shape tx)"
  shows "length (slice (shape tx) (x_reduction_axes ax) j)
         = prod_list (map ((!) (shape tx)) (x_reduction_axes ax))"
proof -
  note r = resolve_axes_Inr [OF ax]
  have "sorted_wrt (<) (x_reduction_axes ax)"
    unfolding r(8) by (rule sorted_wrt_filter) simp
  moreover have "\<forall>d\<in>set (x_reduction_axes ax). d < length (shape tx)"
    using r(8) x by simp
  ultimately show ?thesis by (rule length_slice)
qed

lemma bessel_correction:
  assumes "2 \<le> n"
  shows "ss / real (n - 0) * (real n / (real n - real_of_int 1)) = ss / real (n - 1)"
proof -
  have "real (n - 1) = real n - 1" using assms by (simp add: of_nat_diff)
  moreover have "real n \<noteq> 0" using assms by simp
  ultimately show ?thesis by simp
qed


lemma forward_update_result:
  assumes ax: "resolve_axes x channels_last stat_axes = Inr ax"
  shows "\<exists>fd' out mean invstd new_mean.
      norm_fusion_forward fd x weight bias (Some running_mean) (Some running_var) eps True
        momentum channels_last x_datatype unbiased stat_axes = Inr (fd', out, mean, invstd)
    \<and> outputs fd' = outputs fd @
        [(new_mean, Some running_mean),
         (let merged = Add (Mul running_var (Sub (ConstFloat 1) momentum))
                         (Mul (if unbiased then Var x (x_reduction_axes ax) 1
                               else Mul (Var x (x_reduction_axes ax) 0)
                                      (Div (num_features ax)
                                         (Sub (num_features ax) (ConstInt 1))))
                            momentum);
              summed = (if BATCH \<in> set stat_axes then Sum merged [0] else merged);
              scaled = Mul summed (Reciprocal (Size x 0))
          in if reduced_precision x_datatype then Cast scaled (the x_datatype) else scaled,
          Some running_var)]"
  using ax resolve_axes_Inr(5) [OF ax]
  by (simp add: norm_fusion_forward_def update_running_def add_output_def Let_def)

text \<open>
  C6. A training-mode forward call with running statistics registers, as the update of the
  running variance, the momentum merge of the running variance with a current variance
  that is \<open>Var x axes 1\<close> when \<^verbatim>\<open>unbiased\<close> is true, and \<open>Var x axes 0\<close> multiplied by
  \<open>num_features / (num_features - 1)\<close> when it is false. On an input of rank at least two
  with at least two features per statistic, the value of that current variance is, for
  either value of the flag, the Bessel-corrected variance of each slice (the sum of squared
  deviations divided by the number of features less one).
\<close>

theorem C6_running_variance_is_unbiased:
  assumes ax: "resolve_axes x channels_last stat_axes = Inr ax" and rank: "2 \<le> ndim x"
      and x: "eval env x = Some tx" "ndim x = length (shape tx)"
      and n: "2 \<le> prod_list (map ((!) (shape tx)) (x_reduction_axes ax))"
  shows "\<exists>fd' out mean invstd new_mean.
      norm_fusion_forward fd x weight bias (Some running_mean) (Some running_var) eps True
        momentum channels_last x_datatype unbiased stat_axes = Inr (fd', out, mean, invstd)
    \<and> outputs fd' = outputs fd @
        [(new_mean, Some running_mean),
         (let merged = Add (Mul running_var (Sub (ConstFloat 1) momentum))
                         (Mul (if unbiased then Var x (x_reduction_axes ax) 1
                               else Mul (Var x (x_reduction_axes ax) 0)
                                      (Div (num_features ax)
                                         (Sub (num_features ax) (ConstInt 1))))
                            momentum);
              summed = (if BATCH \<in> set stat_axes then Sum merged [0] else merged);
              scaled = Mul summed (Reciprocal (Size x 0))
          in if reduced_precision x_datatype then Cast scaled (the x_datatype) else scaled,
          Some running_var)]
    \<and> has_value env
          (if unbiased then Var x (x_reduction_axes ax) 1
           else Mul (Var x (x_reduction_axes ax) 0)
                  (Div (num_features ax) (Sub (num_features ax) (ConstInt 1))))
          (map ((!) (shape tx)) (stat_dims ax))
          (slice_var tx (x_reduction_axes ax) 1)"
proof -
  let ?red = "x_reduction_axes ax"
  let ?n = "prod_list (map ((!) (shape tx)) ?red)"
  have v: "has_value env
          (if unbiased then Var x ?red 1
           else Mul (Var x ?red 0) (Div (num_features ax) (Sub (num_features ax) (ConstInt 1))))
          (map ((!) (shape tx)) (stat_dims ax)) (slice_var tx ?red 1)"
  proof (cases unbiased)
    case True
    then show ?thesis using fresh_statistics_value(2) [OF ax rank x, of 1] n by simp
  next
    case False
    have "0 < ?n" using n by simp
    note var0 = fresh_statistics_value(2) [OF ax rank x this]
    note nf = num_features_value [OF ax rank x]
    note sub = has_value_same(2) [OF nf has_value_const(1) [of env 1]]
    note dv = has_value_same(4) [OF nf sub]
    note ml = has_value_scalar_right(3) [OF var0 dv]
    have "has_value env
            (Mul (Var x ?red 0) (Div (num_features ax) (Sub (num_features ax) (ConstInt 1))))
            (map ((!) (shape tx)) (stat_dims ax)) (slice_var tx ?red 1)"
    proof (rule has_value_cong [OF ml])
      fix j
      have l: "length (slice (shape tx) ?red j) = ?n"
        by (rule slice_length_features [OF ax rank x(2)])
      show "slice_var tx ?red 0 j * (real ?n / (real ?n - real_of_int 1))
            = slice_var tx ?red 1 j"
        unfolding slice_var_def l by (rule bessel_correction [OF n])
    qed
    with False show ?thesis by simp
  qed
  from forward_update_result [OF ax] v show ?thesis by blast
qed


theorem C6_running_variance_is_unbiased_witness:
  "\<exists>t bt.
     eval [''x'' \<mapsto> \<lparr>shape = [3, 1],
                        elem = (\<lambda>i. if i ! 0 = 0 then 1 else if i ! 0 = 1 then 2 else 6)\<rparr>]
       (Mul (Var (TensorIn ''x'' 2) [0] 0)
          (Div (Mul (ConstInt 1) (Size (TensorIn ''x'' 2) 0))
             (Sub (Mul (ConstInt 1) (Size (TensorIn ''x'' 2) 0)) (ConstInt 1)))) = Some t
   \<and> shape t = [1] \<and> elem t [0] = 7
   \<and> eval [''x'' \<mapsto> \<lparr>shape = [3, 1],
                        elem = (\<lambda>i. if i ! 0 = 0 then 1 else if i ! 0 = 1 then 2 else 6)\<rparr>]
       (Var (TensorIn ''x'' 2) [0] 0) = Some bt
   \<and> elem bt [0] = 14 / 3"
proof -
  let ?env = "[''x'' \<mapsto> \<lparr>shape = [3, 1],
                        elem = (\<lambda>i. if i ! 0 = 0 then 1 else if i ! 0 = 1 then 2 else 6)\<rparr>]"
  let ?x = "TensorIn ''x'' 2"
  let ?tx = "\<lparr>shape = [3, 1],
              elem = (\<lambda>i. if i ! 0 = 0 then 1 else if i ! 0 = (1::nat) then 2 else (6::real))\<rparr>"
  let ?ax = "\<lparr>dyn_shape = [Size ?x 0, Size ?x 1], num_dims = 2,
       batch_size = Size ?x 0, channel_dim = 1, num_channels = Size ?x 1, stat_dims = [1],
       stat_dims_nobatch = [1], num_stats = Mul (ConstInt 1) (Size ?x 1),
       x_reduction_axes = [0], num_features = Mul (ConstInt 1) (Size ?x 0)\<rparr>"
  have ax: "resolve_axes ?x False [CHANNEL] = Inr ?ax"
    by (simp add: resolve_axes_def tensor_sizes_def Let_def upt_rec)
  have rank: "2 \<le> ndim ?x" by simp
  have x: "eval ?env ?x = Some ?tx" "ndim ?x = length (shape ?tx)"
    by (simp_all add: lift1_def)
  have n: "2 \<le> prod_list (map ((!) (shape ?tx)) (x_reduction_axes ?ax))" by simp
  from C6_running_variance_is_unbiased [OF ax rank x n, of "\<lparr>outputs = []\<rparr>" None None "TensorIn ''running_mean'' 1"
      "TensorIn ''running_var'' 1" "ScalarIn ''eps''" "ScalarIn ''momentum''" "Some Float" False]
  have "has_value ?env
          (Mul (Var ?x [0] 0)
             (Div (Mul (ConstInt 1) (Size ?x 0)) (Sub (Mul (ConstInt 1) (Size ?x 0)) (ConstInt 1))))
          [1] (slice_var ?tx [0] 1)"
    by auto
  then obtain t where t: "eval ?env
          (Mul (Var ?x [0] 0)
             (Div (Mul (ConstInt 1) (Size ?x 0)) (Sub (Mul (ConstInt 1) (Size ?x 0)) (ConstInt 1))))
          = Some t" "shape t = [1]" "elem t [0] = slice_var ?tx [0] 1 [0]"
    unfolding has_value_def by (auto simp: valid_index_def)
  have 7: "slice_var ?tx [0] 1 [0] = 7"
    by (simp add: slice_var_def slice_mean_def slice_def kept_axes_def upt_rec power2_eq_square)
  have "\<exists>bt. eval ?env (Var ?x [0] 0) = Some bt \<and> elem bt [0] = 14 / 3"
    by (simp add: value_defs upt_rec power2_eq_square)
  with t 7 show ?thesis by auto
qed

section \<open>The running-mean update\<close>

lemma forward_mean_update_result:
  assumes ax: "resolve_axes x channels_last stat_axes = Inr ax"
      and nb: "BATCH \<notin> set stat_axes"
  shows "\<exists>fd' out mean invstd new_var.
      norm_fusion_forward fd x weight bias (Some running_mean) (Some running_var) eps True
        momentum channels_last x_datatype unbiased stat_axes = Inr (fd', out, mean, invstd)
    \<and> outputs fd' = outputs fd @
        [(let scaled = Mul (Add (Mul running_mean (Sub (ConstFloat 1) momentum))
                              (Mul (Mean x (x_reduction_axes ax) (if unbiased then 1 else 0))
                                 momentum))
                         (Reciprocal (Size x 0))
          in if reduced_precision x_datatype then Cast scaled (the x_datatype) else scaled,
          Some running_mean),
         (new_var, Some running_var)]"
  using ax nb resolve_axes_Inr(5) [OF ax]
  by (simp add: norm_fusion_forward_def update_running_def add_output_def Let_def)

text \<open>
  C1 (the code departs from it). The claim: with roles \<open>{CHANNEL}\<close> the running mean after
  one training step from zero is \<open>m \<cdot> batchMean\<close>; when BATCH is not a role the
  momentum-merged statistic is written back with no division by the batch size. The code:
  the sum over the batch axis is conditional on BATCH (line 154), the multiplication by
  \<^verbatim>\<open>reciprocal(batch_size)\<close> is not (lines 158--159). So whenever BATCH is not a role,
  the value written onto the running mean is
  \<open>(running_mean \<cdot> (1 - m) + batchMean \<cdot> m) / batch_size\<close>. On a batch of two samples
  \<open>1\<close> and \<open>3\<close> of one channel, with \<open>m = 1/2\<close> and a running mean of zero, the running
  mean becomes \<open>1/2\<close>, where \<open>m \<cdot> batchMean\<close> is \<open>1\<close>.
\<close>

theorem C1_running_mean_divided_by_batch_size:
  assumes ax: "resolve_axes x channels_last stat_axes = Inr ax" and rank: "2 \<le> ndim x"
      and nb: "BATCH \<notin> set stat_axes"
      and x: "eval env x = Some tx" "ndim x = length (shape tx)"
      and rm: "eval env running_mean = Some tm"
              "shape tm = map ((!) (shape tx)) (stat_dims ax)"
      and m: "eval env momentum = Some tmo" "shape tmo = []"
  shows "\<exists>fd' out mean invstd new_var.
      norm_fusion_forward fd x weight bias (Some running_mean) (Some running_var) eps True
        momentum channels_last x_datatype unbiased stat_axes = Inr (fd', out, mean, invstd)
    \<and> outputs fd' = outputs fd @
        [(let scaled = Mul (Add (Mul running_mean (Sub (ConstFloat 1) momentum))
                              (Mul (Mean x (x_reduction_axes ax) (if unbiased then 1 else 0))
                                 momentum))
                         (Reciprocal (Size x 0))
          in if reduced_precision x_datatype then Cast scaled (the x_datatype) else scaled,
          Some running_mean),
         (new_var, Some running_var)]
    \<and> has_value env
         (let scaled = Mul (Add (Mul running_mean (Sub (ConstFloat 1) momentum))
                              (Mul (Mean x (x_reduction_axes ax) (if unbiased then 1 else 0))
                                 momentum))
                         (Reciprocal (Size x 0))
          in if reduced_precision x_datatype then Cast scaled (the x_datatype) else scaled)
         (shape tm)
         (\<lambda>j. (elem tm j * (1 - elem tmo [])
                 + slice_mean tx (x_reduction_axes ax) j * elem tmo [])
                * inverse (real (shape tx ! 0)))"
proof -
  let ?c = "if unbiased then 1 else 0 :: nat"
  let ?red = "x_reduction_axes ax"
  note r = resolve_axes_Inr [OF ax]
  have mo: "has_value env momentum [] (elem tmo)" using has_value_eval [OF m(1)] m(2) by simp
  have hrm: "has_value env running_mean (shape tm) (elem tm)" by (rule has_value_eval [OF rm(1)])
  have mean: "has_value env (Mean x ?red ?c) (shape tm) (slice_mean tx ?red)"
    using fresh_statistics_value(1) [OF ax rank x, of ?c] rm(2) by simp
  note rev = has_value_same(2) [OF has_value_const(2) [of env 1] mo]
  note cur = has_value_scalar_right(3) [OF mean mo]
  note old = has_value_scalar_right(3) [OF hrm rev]
  note new = has_value_same(1) [OF old cur]
  have "0 < length (shape tx)" using rank x(2) by auto
  note rb = has_value_unary(2) [OF has_value_Size [OF has_value_eval [OF x(1)] this]]
  note sc = has_value_scalar_right(3) [OF new rb]
  have "has_value env
         (let scaled = Mul (Add (Mul running_mean (Sub (ConstFloat 1) momentum))
                              (Mul (Mean x ?red ?c) momentum))
                         (Reciprocal (Size x 0))
          in if reduced_precision x_datatype then Cast scaled (the x_datatype) else scaled)
         (shape tm)
         (\<lambda>j. (elem tm j * (1 - elem tmo []) + slice_mean tx ?red j * elem tmo [])
                * inverse (real (shape tx ! 0)))"
    using sc has_value_unary(3) [OF sc] by (simp add: Let_def)
  with forward_mean_update_result [OF ax nb] show ?thesis by blast
qed

theorem C1_running_mean_divided_by_batch_size_witness:
  "\<exists>fd' out mean invstd env' res t bm.
     norm_fusion_forward \<lparr>outputs = []\<rparr> (TensorIn ''x'' 2) None None
       (Some (TensorIn ''running_mean'' 1)) (Some (TensorIn ''running_var'' 1))
       (ScalarIn ''eps'') True (ScalarIn ''momentum'') False (Some Float) False [CHANNEL]
     = Inr (fd', out, mean, invstd)
   \<and> eval [''x'' \<mapsto> \<lparr>shape = [2, 1], elem = (\<lambda>i. if i = [0, 0] then 1 else 3)\<rparr>,
            ''running_mean'' \<mapsto> \<lparr>shape = [1], elem = (\<lambda>i. 0)\<rparr>,
            ''running_var'' \<mapsto> \<lparr>shape = [1], elem = (\<lambda>i. 0)\<rparr>,
            ''momentum'' \<mapsto> scalar (1 / 2), ''eps'' \<mapsto> scalar 1] mean = Some bm
   \<and> elem bm [0] = 2
   \<and> run [''x'' \<mapsto> \<lparr>shape = [2, 1], elem = (\<lambda>i. if i = [0, 0] then 1 else 3)\<rparr>,
           ''running_mean'' \<mapsto> \<lparr>shape = [1], elem = (\<lambda>i. 0)\<rparr>,
           ''running_var'' \<mapsto> \<lparr>shape = [1], elem = (\<lambda>i. 0)\<rparr>,
           ''momentum'' \<mapsto> scalar (1 / 2), ''eps'' \<mapsto> scalar 1] fd' = Some (env', res)
   \<and> env' ''running_mean'' = Some t \<and> shape t = [1] \<and> elem t [0] = 1 / 2
   \<and> elem t [0] \<noteq> 1 / 2 * elem bm [0]"
proof -
  let ?env = "[''x'' \<mapsto> \<lparr>shape = [2, 1], elem = (\<lambda>i. if i = [0, 0] then 1 else 3)\<rparr>,
            ''running_mean'' \<mapsto> \<lparr>shape = [1], elem = (\<lambda>i. 0)\<rparr>,
            ''running_var'' \<mapsto> \<lparr>shape = [1], elem = (\<lambda>i. 0)\<rparr>,
            ''momentum'' \<mapsto> scalar (1 / 2), ''eps'' \<mapsto> scalar 1]"
  let ?x = "TensorIn ''x'' 2"
  let ?tx = "\<lparr>shape = [2, 1], elem = (\<lambda>i. if i = [0, 0] then 1 else (3::real))\<rparr>"
  let ?tm = "\<lparr>shape = [1], elem = (\<lambda>i. 0 :: real)\<rparr>"
  let ?ax = "\<lparr>dyn_shape = [Size ?x 0, Size ?x 1], num_dims = 2,
       batch_size = Size ?x 0, channel_dim = 1, num_channels = Size ?x 1, stat_dims = [1],
       stat_dims_nobatch = [1], num_stats = Mul (ConstInt 1) (Size ?x 1),
       x_reduction_axes = [0], num_features = Mul (ConstInt 1) (Size ?x 0)\<rparr>"
  let ?nm = "Mul (Add (Mul (TensorIn ''running_mean'' 1) (Sub (ConstFloat 1) (ScalarIn ''momentum'')))
                    (Mul (Mean ?x [0] 0) (ScalarIn ''momentum'')))
               (Reciprocal (Size ?x 0))"
  have ax: "resolve_axes ?x False [CHANNEL] = Inr ?ax"
    by (simp add: resolve_axes_def tensor_sizes_def Let_def upt_rec)
  have rank: "2 \<le> ndim ?x" by simp
  have nb: "BATCH \<notin> set [CHANNEL]" by simp
  have x: "eval ?env ?x = Some ?tx" "ndim ?x = length (shape ?tx)"
    by (simp_all add: lift1_def)
  have rm: "eval ?env (TensorIn ''running_mean'' 1) = Some ?tm"
    "shape ?tm = map ((!) (shape ?tx)) (stat_dims ?ax)"
    by (simp_all add: lift1_def)
  have m: "eval ?env (ScalarIn ''momentum'') = Some (scalar (1 / 2))"
    "shape (scalar (1 / 2)) = []"
    by (simp_all add: lift1_def scalar_def)
  from C1_running_mean_divided_by_batch_size [OF ax rank nb x rm m, of "\<lparr>outputs = []\<rparr>" None None
      "TensorIn ''running_var'' 1" "ScalarIn ''eps''" "Some Float" False]
  obtain fd' out mean invstd new_var where
    t: "norm_fusion_forward \<lparr>outputs = []\<rparr> ?x None None
       (Some (TensorIn ''running_mean'' 1)) (Some (TensorIn ''running_var'' 1))
       (ScalarIn ''eps'') True (ScalarIn ''momentum'') False (Some Float) False [CHANNEL]
     = Inr (fd', out, mean, invstd)"
    and o: "outputs fd' = [(?nm, Some (TensorIn ''running_mean'' 1)),
                           (new_var, Some (TensorIn ''running_var'' 1))]"
    and hv: "has_value ?env ?nm (shape ?tm)
         (\<lambda>j. (elem ?tm j * (1 - elem (scalar (1 / 2)) [])
                 + slice_mean ?tx [0] j * elem (scalar (1 / 2)) [])
                * inverse (real (shape ?tx ! 0)))"
    by (auto simp: reduced_precision_def Let_def)
  from t have nv: "new_var =
       Mul (Add (Mul (TensorIn ''running_var'' 1) (Sub (ConstFloat 1) (ScalarIn ''momentum'')))
             (Mul (Mul (Var ?x [0] 0)
                     (Div (Mul (ConstInt 1) (Size ?x 0))
                        (Sub (Mul (ConstInt 1) (Size ?x 0)) (ConstInt 1))))
                (ScalarIn ''momentum'')))
          (Reciprocal (Size ?x 0))"
    and mean: "mean = Mean ?x [0] 0"
    using o by (auto simp: graph_defs Let_def upt_rec)
  from hv obtain tn where tn: "eval ?env ?nm = Some tn" "shape tn = [1]"
    "elem tn [0] = (elem ?tm [0] * (1 - elem (scalar (1 / 2)) [])
                 + slice_mean ?tx [0] [0] * elem (scalar (1 / 2)) [])
                * inverse (real (shape ?tx ! 0))"
    unfolding has_value_def by (auto simp: valid_index_def)
  have half: "elem tn [0] = 1 / 2"
    unfolding tn(3) by (simp add: scalar_def slice_mean_def slice_def kept_axes_def upt_rec)
  have "\<exists>bm. eval ?env mean = Some bm \<and> elem bm [0] = 2"
    unfolding mean by (simp add: value_defs upt_rec)
  then obtain bm where bm: "eval ?env mean = Some bm" "elem bm [0] = 2" by blast
  have "\<exists>tv. eval ?env new_var = Some tv"
    unfolding nv by (simp add: value_defs upt_rec)
  then obtain tv where tv: "eval ?env new_var = Some tv" by blast
  have r: "run ?env fd' = Some (?env(''running_mean'' \<mapsto> tn, ''running_var'' \<mapsto> tv), [])"
    unfolding run_def o using tn(1) tv by simp
  have g: "(?env(''running_mean'' \<mapsto> tn, ''running_var'' \<mapsto> tv)) ''running_mean'' = Some tn"
    by simp
  have ne: "elem tn [0] \<noteq> 1 / 2 * elem bm [0]" using half bm(2) by simp
  from t bm r g tn(2) half ne show ?thesis by blast
qed

end
